theory Spec2Isabelle
  imports Main "HOL-Library.Sublist"
begin

section \<open>The Jenkins X engine controller of Lighthouse: reconciliation of a job\<close>

text \<open>
  A shallow embedding of \<^verbatim>\<open>pkg/engines/jx/controller.go\<close>. The cluster is an explicit
  store, every call to the cluster client and to the pipeline engine is an event of a
  trace, every error return and every panic of the code are values of the result.
\<close>

subsection \<open>Data of the job and of the pipeline activity\<close>

text \<open>
  The lifecycle state of a job. The controller names two constants of the Lighthouse API,
  \<^verbatim>\<open>TriggeredState\<close> and \<^verbatim>\<open>PendingState\<close>; every other value of the string type
  is \<open>OtherState\<close>.
\<close>

datatype PipelineState = TriggeredState | PendingState | OtherState string

record Pull =
  Number :: int
  SHA :: string

record Refs =
  Org :: string
  Repo :: string
  CloneURI :: string
  BaseRef :: string
  BaseSHA :: string
  Pulls :: "Pull list"

text \<open>
  The spec of a job. \<open>Type\<close> is the kind of job (presubmit, postsubmit, batch,
  periodic); \<open>Refs\<close> is a pointer, \<open>None\<close> for nil.
\<close>

record LighthouseJobSpec =
  Type :: string
  Agent :: string
  Refs :: "Refs option"
  Spec_Context :: string
  Spec_Job :: string

text \<open>The snapshot of an activity that a job carries in its status.\<close>

record ActivityRecord =
  ar_Owner :: string
  ar_Repo :: string
  ar_Branch :: string
  ar_BuildIdentifier :: string
  ar_Context :: string

text \<open>
  \<open>StartTime\<close> is \<open>None\<close> for the zero time, \<open>ReportURL\<close> is the empty string when
  there is none, \<open>Activity\<close> is a pointer (\<open>None\<close> for nil).
\<close>

record LighthouseJobStatus =
  State :: PipelineState
  ActivityName :: string
  StartTime :: "nat option"
  ReportURL :: string
  Activity :: "ActivityRecord option"

text \<open>
  \<open>Labels\<close> is a Go map: \<open>None\<close> is the nil map of a job that was created with no
  labels, \<open>Some m\<close> an allocated map.
\<close>

record LighthouseJob =
  Name :: string
  Namespace :: string
  Labels :: "(string \<rightharpoonup> string) option"
  Spec :: LighthouseJobSpec
  Status :: LighthouseJobStatus

record PipelineActivity =
  pa_Name :: string
  pa_Namespace :: string
  pa_Build :: string
  pa_GitOwner :: string
  pa_GitRepository :: string
  pa_GitBranch :: string
  pa_Context :: string

subsection \<open>Parameters of the pipeline engine\<close>

record PullRequestRef =
  ID :: string
  MergeSHA :: string

record PullRef =
  sourceURL :: string
  baseBranch :: string
  baseSHA :: string
  pullRequests :: "PullRequestRef list"

datatype PipelineKind = ReleasePipeline | PullRequestPipeline

record PipelineCreateParam =
  PullRef :: PullRef
  PipelineKind :: PipelineKind
  param_Context :: string
  ServiceAccount :: string
  DefaultImage :: string
  EnvVariables :: "(string \<times> string) list"

text \<open>The activity key and the run descriptor that the engine's create returns.\<close>

record ActivityKey =
  Key_Name :: string

datatype CRDWrapper = CRDWrapper string

subsection \<open>Errors, results, events\<close>

text \<open>
  \<open>Wrap e msg\<close> is \<^verbatim>\<open>errors.Wrap(e, msg)\<close>. A reconciliation returns an error, or it
  panics; \<open>Inr ()\<close> is the nil error.
\<close>

datatype error =
  NotFound | ClientError string | EngineError string | LibraryError string | Wrap error string

datatype failure = Returned error | Panic string

type_synonym result = "failure + unit"

datatype event =
    Log string
  | LogFields "(string \<times> string) list" string
  | CallCreate PipelineCreateParam
  | CallApply ActivityKey CRDWrapper
  | CallUpdate LighthouseJob
  | CallStatusUpdate LighthouseJob

subsection \<open>What a reconciliation takes from outside\<close>

text \<open>
  The error of a template: of its parsing, or of its execution.
\<close>

datatype template_error = ParseError string | ExecError string

text \<open>
  The process environment, the clock, the functions and constants of the libraries that
  the package imports, and for each call to the cluster whether the cluster refuses it.
  \<^item> \<open>GetBranch\<close> and \<open>GetEnvVars\<close> are methods of the spec. \<open>GetEnvVars\<close> is \<open>None\<close>
    where the method panics; it indexes the first pull request of a job that is neither a
    postsubmit nor a batch job, so it panics for such a job with no pull request.
  \<^item> \<open>yamlRoundTrip\<close> is what a string becomes when the YAML library marshals it and
    unmarshals it back, or the error of the library; it refuses, for one, the character
    DEL.
  \<^item> \<open>templateLibrary\<close> is the result of \<^verbatim>\<open>text/template\<close> (parsing and execution with
    the option \<^verbatim>\<open>missingkey=error\<close>) on a text that uses actions other than the ones
    modelled below.
  \<^item> \<open>convertErr\<close> is the error of the conversion of an activity, when there is one.
\<close>

record env =
  Getenv :: "string \<Rightarrow> string"
  Now :: nat
  ToValidName :: "string \<Rightarrow> string"
  GetBranch :: "LighthouseJobSpec \<Rightarrow> string"
  GetEnvVars :: "LighthouseJobSpec \<Rightarrow> (string \<times> string) list option"
  JenkinsXAgent :: string
  LegacyDefaultAgent :: string
  BuildNumLabel :: string
  yamlRoundTrip :: "string \<Rightarrow> error + string"
  templateLibrary :: "string \<Rightarrow> (string \<rightharpoonup> string) \<Rightarrow> template_error + string"
  getErr :: "error option"
  listErr :: "error option"
  updateErr :: "error option"
  convertErr :: "error option"
  statusUpdateErr :: "error option"

subsection \<open>The report URL: template, parameters, rendering\<close>

definition defaultTargetURLTemplate :: string where
  "defaultTargetURLTemplate =
     ''{{ .BaseURL }}/teams/{{ .Team }}/projects/{{ .Owner }}/{{ .Repository }}/{{ .Branch }}/{{ .Build }}''"

definition baseTargetURLEnvVar :: string where
  "baseTargetURLEnvVar = ''LIGHTHOUSE_REPORT_URL_BASE''"

definition targetURLTeamEnvVar :: string where
  "targetURLTeamEnvVar = ''LIGHTHOUSE_REPORT_URL_TEAM''"

record ReportParams =
  BaseURL :: string
  Owner :: string
  Repository :: string
  Branch :: string
  Build :: string
  Context :: string
  Team :: string

text \<open>
  \<^verbatim>\<open>toObjectMap\<close> marshals the parameters to YAML and back into a map: one key for each
  field of the struct, under the field's name, with the field's string as it comes back.
  It fails when the library refuses one of the strings.
\<close>

fun roundTrips ::
  "(string \<Rightarrow> error + string) \<Rightarrow> (string \<times> string) list \<Rightarrow> error + (string \<times> string) list" where
  "roundTrips f [] = Inr []"
| "roundTrips f ((k, v) # kvs) =
     (case f v of
        Inl err \<Rightarrow> Inl err
      | Inr v' \<Rightarrow> (case roundTrips f kvs of Inl err \<Rightarrow> Inl err | Inr kvs' \<Rightarrow> Inr ((k, v') # kvs')))"

definition paramFields :: "ReportParams \<Rightarrow> (string \<times> string) list" where
  "paramFields params =
     [(''BaseURL'', BaseURL params), (''Owner'', Owner params),
      (''Repository'', Repository params), (''Branch'', Branch params),
      (''Build'', Build params), (''Context'', Context params), (''Team'', Team params)]"

definition toObjectMap :: "env \<Rightarrow> ReportParams \<Rightarrow> error + (string \<rightharpoonup> string)" where
  "toObjectMap e params =
     (case roundTrips (yamlRoundTrip e) (paramFields params) of
        Inl err \<Rightarrow> Inl err
      | Inr kvs \<Rightarrow> Inr (map_of kvs))"

text \<open>
  The part of \<^verbatim>\<open>text/template\<close> that is modelled: literal text, the field action
  \<^verbatim>\<open>{{ .Name }}\<close> that looks a key up in the data, and the conditional on a constant,
  \<^verbatim>\<open>{{ if true }}\<close> or \<^verbatim>\<open>{{ if false }}\<close> with \<^verbatim>\<open>{{ else }}\<close> and \<^verbatim>\<open>{{ end }}\<close>. A text
  with any other action (pipelines, numbers such as \<^verbatim>\<open>{{ .5 }}\<close>, other control
  structures, trim markers, comments, line breaks) is outside the model: its result is the
  library's, which the environment gives.
\<close>

datatype segment = Lit string | Act string

datatype action = Field string | If bool | Else | End

datatype item = Text string | Action action

datatype parsed = Template "item list" | Malformed string | Outside

text \<open>
  The lexer: \<open>inAct\<close> says whether the left delimiter has been read, \<open>acc\<close> holds the
  characters of the current segment, last first. \<open>None\<close>: an action is never closed.
\<close>

fun lexTemplate :: "bool \<Rightarrow> string \<Rightarrow> string \<Rightarrow> segment list option" where
  "lexTemplate inAct acc [] = (if inAct then None else Some [Lit (rev acc)])"
| "lexTemplate inAct acc [c] = (if inAct then None else Some [Lit (rev (c # acc))])"
| "lexTemplate inAct acc (c # d # cs) =
     (if \<not> inAct \<and> c = CHR ''{'' \<and> d = CHR ''{'' then
        (case lexTemplate True [] cs of
           None \<Rightarrow> None
         | Some segs \<Rightarrow> Some (Lit (rev acc) # segs))
      else if inAct \<and> c = CHR ''}'' \<and> d = CHR ''}'' then
        (case lexTemplate False [] cs of
           None \<Rightarrow> None
         | Some segs \<Rightarrow> Some (Act (rev acc) # segs))
      else lexTemplate inAct (c # acc) (d # cs))"

text \<open>
  The separators inside an action: the space and the tabulator. A line break inside an
  action is an error in older versions of the library and a separator in newer ones; an
  action with one is outside the model.
\<close>

definition isSpace :: "char \<Rightarrow> bool" where
  "isSpace c = (c = CHR 0x20 \<or> c = CHR 0x09)"

definition isDigit :: "char \<Rightarrow> bool" where
  "isDigit c = (let n = (of_char c :: nat) in 48 \<le> n \<and> n \<le> 57)"

definition isAlphaNumeric :: "char \<Rightarrow> bool" where
  "isAlphaNumeric c =
     (let n = (of_char c :: nat) in
      c = CHR ''_'' \<or> (97 \<le> n \<and> n \<le> 122) \<or> (65 \<le> n \<and> n \<le> 90) \<or> isDigit c)"

text \<open>The words of an action: its maximal runs of characters that are not spaces.\<close>

fun splitWords :: "string \<Rightarrow> string \<Rightarrow> string list" where
  "splitWords acc [] = (if acc = [] then [] else [rev acc])"
| "splitWords acc (c # cs) =
     (if isSpace c then (if acc = [] then splitWords [] cs else rev acc # splitWords [] cs)
      else splitWords (c # acc) cs)"

text \<open>
  A field is a dot and a name of letters, digits and underscores that does not start with
  a digit (a dot before a digit starts a number).
\<close>

definition fieldName :: "string \<Rightarrow> string option" where
  "fieldName word =
     (case word of
        [] \<Rightarrow> None
      | c # name \<Rightarrow>
          if c = CHR ''.'' \<and> name \<noteq> [] \<and> \<not> isDigit (hd name) \<and> list_all isAlphaNumeric name
          then Some name else None)"

definition parseAction :: "string \<Rightarrow> action option" where
  "parseAction s =
     (case splitWords [] s of
        [word] \<Rightarrow>
          if word = ''else'' then Some Else
          else if word = ''end'' then Some End
          else map_option Field (fieldName word)
      | [word, const] \<Rightarrow>
          if word = ''if'' \<and> const = ''true'' then Some (If True)
          else if word = ''if'' \<and> const = ''false'' then Some (If False)
          else None
      | _ \<Rightarrow> None)"

fun parseSegments :: "segment list \<Rightarrow> item list option" where
  "parseSegments [] = Some []"
| "parseSegments (Lit t # segs) = map_option (\<lambda>items. Text t # items) (parseSegments segs)"
| "parseSegments (Act a # segs) =
     (case parseAction a of
        None \<Rightarrow> None
      | Some act \<Rightarrow> map_option (\<lambda>items. Action act # items) (parseSegments segs))"

text \<open>
  The nesting of the conditionals; the stack says for each open conditional whether its
  \<^verbatim>\<open>else\<close> has been read.
\<close>

fun wellNested :: "bool list \<Rightarrow> item list \<Rightarrow> bool" where
  "wellNested stack [] = (stack = [])"
| "wellNested stack (Text t # items) = wellNested stack items"
| "wellNested stack (Action (Field k) # items) = wellNested stack items"
| "wellNested stack (Action (If b) # items) = wellNested (False # stack) items"
| "wellNested stack (Action Else # items) =
     (case stack of
        [] \<Rightarrow> False
      | seen # stack' \<Rightarrow> \<not> seen \<and> wellNested (True # stack') items)"
| "wellNested stack (Action End # items) =
     (case stack of [] \<Rightarrow> False | seen # stack' \<Rightarrow> wellNested stack' items)"

definition templateParse :: "string \<Rightarrow> parsed" where
  "templateParse templateText =
     (case lexTemplate False [] templateText of
        None \<Rightarrow> Malformed ''unclosed action''
      | Some segs \<Rightarrow>
          (case parseSegments segs of
             None \<Rightarrow> Outside
           | Some items \<Rightarrow>
               if wellNested [] items then Template items else Malformed ''unexpected action''))"

text \<open>
  Execution with the option \<^verbatim>\<open>missingkey=error\<close>. The stack says for each open
  conditional whether the branch being read is the one that is executed; text and fields
  are executed when every entry says so. A key that the data does not have stops the
  execution with an error.
\<close>

fun templateExecute :: "bool list \<Rightarrow> item list \<Rightarrow> (string \<rightharpoonup> string) \<Rightarrow> template_error + string" where
  "templateExecute stack [] templateData = Inr []"
| "templateExecute stack (Text t # items) templateData =
     (case templateExecute stack items templateData of
        Inl err \<Rightarrow> Inl err
      | Inr out \<Rightarrow> Inr (if list_all id stack then t @ out else out))"
| "templateExecute stack (Action (Field k) # items) templateData =
     (if list_all id stack then
        (case templateData k of
           None \<Rightarrow> Inl (ExecError ''map has no entry for key'')
         | Some v \<Rightarrow>
             (case templateExecute stack items templateData of
                Inl err \<Rightarrow> Inl err
              | Inr out \<Rightarrow> Inr (v @ out)))
      else templateExecute stack items templateData)"
| "templateExecute stack (Action (If b) # items) templateData =
     templateExecute (b # stack) items templateData"
| "templateExecute stack (Action Else # items) templateData =
     (case stack of
        [] \<Rightarrow> templateExecute [] items templateData
      | b # stack' \<Rightarrow> templateExecute ((\<not> b) # stack') items templateData)"
| "templateExecute stack (Action End # items) templateData =
     templateExecute (tl stack) items templateData"

definition templateRender ::
  "env \<Rightarrow> string \<Rightarrow> (string \<rightharpoonup> string) \<Rightarrow> template_error + string" where
  "templateRender e templateText templateData =
     (case templateParse templateText of
        Outside \<Rightarrow> templateLibrary e templateText templateData
      | Malformed msg \<Rightarrow> Inl (ParseError msg)
      | Template items \<Rightarrow> templateExecute [] items templateData)"

text \<open>
  \<^verbatim>\<open>createReportTargetURL\<close>: the warning it logs, and the URL, empty on every failure.
\<close>

definition createReportTargetURL ::
  "env \<Rightarrow> string \<Rightarrow> ReportParams \<Rightarrow> event list \<times> string" where
  "createReportTargetURL e templateText params =
     (case toObjectMap e params of
        Inl err \<Rightarrow> ([Log ''failed to convert git ReportParams to a map''], '''')
      | Inr templateData \<Rightarrow>
          (case templateRender e templateText templateData of
             Inl (ParseError msg) \<Rightarrow> ([Log ''failed to parse git ReportsParam template''], '''')
           | Inl (ExecError msg) \<Rightarrow> ([Log ''failed to evaluate git ReportsParam template''], '''')
           | Inr buf \<Rightarrow> ([], buf)))"

subsection \<open>Helpers of the Go library\<close>

definition HasPrefix :: "string \<Rightarrow> string \<Rightarrow> bool" where
  "HasPrefix s p = (take (length p) s = p)"

definition TrimRight :: "string \<Rightarrow> string \<Rightarrow> string" where
  "TrimRight s cutset = rev (dropWhile (\<lambda>c. c \<in> set cutset) (rev s))"

definition digit :: "nat \<Rightarrow> char" where
  "digit n = ''0123456789'' ! n"

function natToDec :: "nat \<Rightarrow> string" where
  "natToDec n = (if n < 10 then [digit n] else natToDec (n div 10) @ [digit (n mod 10)])"
  by pat_completeness auto
termination
  by (relation "measure (\<lambda>n. n)") auto

declare natToDec.simps [simp del]

text \<open>\<^verbatim>\<open>strconv.Itoa\<close>: the decimal numeral of an integer.\<close>

definition Itoa :: "int \<Rightarrow> string" where
  "Itoa i = (if i < 0 then CHR ''-'' # natToDec (nat (- i)) else natToDec (nat i))"

definition nilPointer :: string where
  "nilPointer = ''invalid memory address or nil pointer dereference''"

subsection \<open>The pull reference of a job\<close>

definition NewPullRef :: "string \<Rightarrow> string \<Rightarrow> string \<Rightarrow> PullRef" where
  "NewPullRef url ref sha =
     \<lparr>sourceURL = url, baseBranch = ref, baseSHA = sha, pullRequests = []\<rparr>"

definition NewPullRefWithPullRequest ::
  "string \<Rightarrow> string \<Rightarrow> string \<Rightarrow> PullRequestRef list \<Rightarrow> PullRef" where
  "NewPullRefWithPullRequest url ref sha prs =
     \<lparr>sourceURL = url, baseBranch = ref, baseSHA = sha, pullRequests = prs\<rparr>"

text \<open>
  \<^verbatim>\<open>getPullRefs\<close> reads the references of the spec through its pointer: \<open>pullRefOf\<close>
  is its body for the references that the pointer leads to.
\<close>

definition pullRefOf :: "string \<Rightarrow> Refs \<Rightarrow> PullRef" where
  "pullRefOf url refs =
     (if length (Pulls refs) > 0 then
        (let prs = map (\<lambda>pull. \<lparr>ID = Itoa (Number pull), MergeSHA = SHA pull\<rparr>) (Pulls refs)
         in NewPullRefWithPullRequest url (BaseRef refs) (BaseSHA refs) prs)
      else NewPullRef url (BaseRef refs) (BaseSHA refs))"

definition getPullRefs :: "string \<Rightarrow> LighthouseJobSpec \<Rightarrow> failure + PullRef" where
  "getPullRefs url spec =
     (case Refs spec of
        None \<Rightarrow> Inl (Panic nilPointer)
      | Some refs \<Rightarrow> Inr (pullRefOf url refs))"

text \<open>
  The method \<^verbatim>\<open>String\<close> of the engine's pull reference, a function of the engine's
  library: the format that the test of this package parses back with
  \<^verbatim>\<open>ParsePullRefs\<close>, the base branch and its revision first, then each pull request as
  \<open>,number:revision\<close>.
\<close>

definition PullRef_String :: "PullRef \<Rightarrow> string" where
  "PullRef_String pullRef =
     baseBranch pullRef @ '':'' @ baseSHA pullRef
       @ concat (map (\<lambda>pr. '','' @ ID pr @ '':'' @ MergeSHA pr) (pullRequests pullRef))"

text \<open>
  Modelled from the spec: \<^verbatim>\<open>ConvertPipelineActivity\<close>, a function of this package that is
  not part of the sources at hand. The specification (4.3, step 5) translates the activity
  into the snapshot of the job: owner, repository, branch, build identifier, and the
  context, with the default \<^verbatim>\<open>jenkins-x\<close> when the activity has none. The source handles
  an error of the conversion; the specification does not say when there is one, so the
  environment gives it.
\<close>

definition ConvertPipelineActivity :: "env \<Rightarrow> PipelineActivity \<Rightarrow> error + ActivityRecord" where
  "ConvertPipelineActivity e pa =
     (case convertErr e of
        Some err \<Rightarrow> Inl err
      | None \<Rightarrow>
          Inr \<lparr>ar_Owner = pa_GitOwner pa, ar_Repo = pa_GitRepository pa,
               ar_Branch = pa_GitBranch pa, ar_BuildIdentifier = pa_Build pa,
               ar_Context = (if pa_Context pa = '''' then ''jenkins-x'' else pa_Context pa)\<rparr>)"

subsection \<open>The reconciler and the cluster\<close>

text \<open>
  The reconciler with the two operations of its engine client. The client of the cluster
  is the store of the world below; the logger is the trace.
\<close>

record LighthouseJobReconciler =
  namespace :: string
  mpClient_Create :: "PipelineCreateParam \<Rightarrow> error + (ActivityKey \<times> CRDWrapper)"
  mpClient_Apply :: "ActivityKey \<Rightarrow> CRDWrapper \<Rightarrow> error option"

type_synonym Request = "string \<times> string"

record world =
  jobs :: "Request \<rightharpoonup> LighthouseJob"
  activities :: "PipelineActivity list"
  trace :: "event list"

definition emit :: "event \<Rightarrow> world \<Rightarrow> world" where
  "emit ev w = w\<lparr>trace := trace w @ [ev]\<rparr>"

definition emits :: "event list \<Rightarrow> world \<Rightarrow> world" where
  "emits evs w = w\<lparr>trace := trace w @ evs\<rparr>"

definition jobKey :: "LighthouseJob \<Rightarrow> Request" where
  "jobKey job = (Namespace job, Name job)"

definition clientGet :: "env \<Rightarrow> Request \<Rightarrow> world \<Rightarrow> error + LighthouseJob" where
  "clientGet e req w =
     (case getErr e of
        Some err \<Rightarrow> Inl err
      | None \<Rightarrow> (case jobs w req of None \<Rightarrow> Inl NotFound | Some job \<Rightarrow> Inr job))"

definition IgnoreNotFound :: "error \<Rightarrow> error option" where
  "IgnoreNotFound err = (if err = NotFound then None else Some err)"

text \<open>
  The activities of a namespace under the field index of \<^verbatim>\<open>SetupWithManager\<close>: an
  activity is indexed under the valid name made from its name.
\<close>

definition matchingActivities :: "env \<Rightarrow> string \<Rightarrow> string \<Rightarrow> world \<Rightarrow> PipelineActivity list" where
  "matchingActivities e ns activityName w =
     filter (\<lambda>pa. pa_Namespace pa = ns \<and> ToValidName e (pa_Name pa) = activityName)
       (activities w)"

definition clientList :: "env \<Rightarrow> string \<Rightarrow> string \<Rightarrow> world \<Rightarrow> error + PipelineActivity list" where
  "clientList e ns activityName w =
     (case listErr e of
        Some err \<Rightarrow> Inl err
      | None \<Rightarrow> Inr (matchingActivities e ns activityName w))"

text \<open>
  \<^verbatim>\<open>client.Update\<close> writes the object and leaves the stored status;
  \<^verbatim>\<open>client.Status().Update\<close> writes the status and leaves the rest of the stored object.
\<close>

definition clientUpdate :: "env \<Rightarrow> LighthouseJob \<Rightarrow> world \<Rightarrow> error option \<times> world" where
  "clientUpdate e job w =
     (let w1 = emit (CallUpdate job) w in
      case updateErr e of
        Some err \<Rightarrow> (Some err, w1)
      | None \<Rightarrow>
          (case jobs w1 (jobKey job) of
             None \<Rightarrow> (Some NotFound, w1)
           | Some stored \<Rightarrow>
               (None, w1\<lparr>jobs := (jobs w1)(jobKey job \<mapsto> job\<lparr>Status := Status stored\<rparr>)\<rparr>)))"

definition clientStatusUpdate :: "env \<Rightarrow> LighthouseJob \<Rightarrow> world \<Rightarrow> error option \<times> world" where
  "clientStatusUpdate e job w =
     (let w1 = emit (CallStatusUpdate job) w in
      case statusUpdateErr e of
        Some err \<Rightarrow> (Some err, w1)
      | None \<Rightarrow>
          (case jobs w1 (jobKey job) of
             None \<Rightarrow> (Some NotFound, w1)
           | Some stored \<Rightarrow>
               (None, w1\<lparr>jobs := (jobs w1)(jobKey job \<mapsto> stored\<lparr>Status := Status job\<rparr>)\<rparr>)))"

definition getReportURLBase :: "env \<Rightarrow> string" where
  "getReportURLBase e = Getenv e baseTargetURLEnvVar"

definition getReportURLTeam :: "env \<Rightarrow> string" where
  "getReportURLTeam e = Getenv e targetURLTeamEnvVar"

subsection \<open>The trigger: no activity yet\<close>

text \<open>
  The branch of \<^verbatim>\<open>Reconcile\<close> for a triggered job with no activity (lines 151 to 218 of
  the source). First its local variables \<^verbatim>\<open>branch\<close>, \<^verbatim>\<open>pullRefs\<close>, \<^verbatim>\<open>sa\<close>,
  \<^verbatim>\<open>kind\<close> and \<^verbatim>\<open>pipelineCreateParam\<close>, then the fields of the log line, the status
  that is assigned, and the branch itself. The branch reads the references of the job
  through their pointer first (line 152) and panics when the pointer is nil; it panics
  after the log line when \<^verbatim>\<open>GetEnvVars\<close> does (line 198).
\<close>

definition triggerBranch :: "env \<Rightarrow> LighthouseJobSpec \<Rightarrow> string" where
  "triggerBranch e spec =
     (let branch = GetBranch e spec in if branch = '''' then ''master'' else branch)"

definition triggerPullRefs :: "Refs \<Rightarrow> PullRef \<Rightarrow> string \<Rightarrow> string" where
  "triggerPullRefs refs pullRefData branch =
     (let pullRefs = (if length (Pulls refs) > 0 then PullRef_String pullRefData else '''')
      in if pullRefs = '''' then branch @ '':'' else pullRefs)"

definition triggerServiceAccount :: "env \<Rightarrow> string" where
  "triggerServiceAccount e =
     (let sa = Getenv e ''JX_SERVICE_ACCOUNT'' in if sa = '''' then ''tekton-bot'' else sa)"

definition triggerKind :: "Refs \<Rightarrow> PipelineKind" where
  "triggerKind refs = (if length (Pulls refs) > 0 then PullRequestPipeline else ReleasePipeline)"

definition pipelineCreateParam ::
  "env \<Rightarrow> LighthouseJobSpec \<Rightarrow> Refs \<Rightarrow> PullRef \<Rightarrow> failure + PipelineCreateParam" where
  "pipelineCreateParam e spec refs pullRefData =
     (case GetEnvVars e spec of
        None \<Rightarrow> Inl (Panic ''index out of range'')
      | Some vars \<Rightarrow>
          Inr \<lparr>PullRef = pullRefData,
               PipelineKind = triggerKind refs,
               param_Context = Spec_Context spec,
               ServiceAccount = triggerServiceAccount e,
               DefaultImage = Getenv e ''JX_DEFAULT_IMAGE'',
               EnvVariables = vars\<rparr>)"

definition triggerLogFields ::
  "LighthouseJobSpec \<Rightarrow> Refs \<Rightarrow> string \<Rightarrow> string \<Rightarrow> (string \<times> string) list" where
  "triggerLogFields spec refs branch pullRefs =
     [(''Owner'', Org refs), (''Name'', Repo refs), (''SourceURL'', CloneURI refs),
      (''Branch'', branch), (''PullRefs'', pullRefs), (''Job'', Spec_Job spec)]"

definition pendingStatus :: "env \<Rightarrow> ActivityKey \<Rightarrow> LighthouseJobStatus" where
  "pendingStatus e activityKey =
     \<lparr>State = PendingState, ActivityName = ToValidName e (Key_Name activityKey),
      StartTime = Some (Now e), ReportURL = '''', Activity = None\<rparr>"

definition triggerPipeline ::
  "LighthouseJobReconciler \<Rightarrow> env \<Rightarrow> LighthouseJob \<Rightarrow> world \<Rightarrow> result \<times> world" where
  "triggerPipeline r e job w =
     (case Refs (Spec job) of
        None \<Rightarrow> (Inl (Panic nilPointer), w)
      | Some refs \<Rightarrow>
          (case getPullRefs (CloneURI refs) (Spec job) of
             Inl f \<Rightarrow> (Inl f, w)
           | Inr pullRefData \<Rightarrow>
               (let branch = triggerBranch e (Spec job);
                    pullRefs = triggerPullRefs refs pullRefData branch;
                    w1 = emit (LogFields (triggerLogFields (Spec job) refs branch pullRefs)
                                 ''about to start Jenkinx X meta pipeline'') w
                in case pipelineCreateParam e (Spec job) refs pullRefData of
                     Inl f \<Rightarrow> (Inl f, w1)
                   | Inr param \<Rightarrow>
                       (let w2 = emit (CallCreate param) w1
                        in case mpClient_Create r param of
                             Inl err \<Rightarrow>
                               (Inl (Returned (Wrap err ''unable to create Tekton CRDs'')), w2)
                           | Inr (activityKey, tektonCRDs) \<Rightarrow>
                               (let job1 = job\<lparr>Status := pendingStatus e activityKey\<rparr> in
                                case clientStatusUpdate e job1 w2 of
                                  (Some err, w3) \<Rightarrow>
                                    (Inl (Returned err),
                                     emit (Log ''Failed to update LighthouseJob status'') w3)
                                | (None, w3) \<Rightarrow>
                                    (let w4 = emit (CallApply activityKey tektonCRDs) w3 in
                                     case mpClient_Apply r activityKey tektonCRDs of
                                       Some err \<Rightarrow>
                                         (Inl (Returned (Wrap err ''unable to apply Tekton CRDs'')),
                                          w4)
                                     | None \<Rightarrow> (Inr (), w4)))))))"

subsection \<open>The mirror: exactly one activity\<close>

text \<open>
  The branch of \<^verbatim>\<open>Reconcile\<close> for exactly one activity (lines 219 to 265 of the source):
  the assignment of the build label, the parameters of the report URL, the assignment of
  the report URL, and the branch itself. An assignment to an entry of a Go map panics when
  the map is nil.
\<close>

definition setLabel :: "LighthouseJob \<Rightarrow> string \<Rightarrow> string \<Rightarrow> failure + LighthouseJob" where
  "setLabel job k v =
     (case Labels job of
        None \<Rightarrow> Inl (Panic ''assignment to entry in nil map'')
      | Some m \<Rightarrow> Inr (job\<lparr>Labels := Some (m(k \<mapsto> v))\<rparr>))"

definition reportParams ::
  "LighthouseJobReconciler \<Rightarrow> env \<Rightarrow> ActivityRecord \<Rightarrow> ReportParams" where
  "reportParams r e activityRecord =
     (let urlBase = getReportURLBase e;
          urlTeam = getReportURLTeam e;
          team = (if urlTeam \<noteq> '''' then urlTeam else namespace r);
          pipelineContext =
            (if ar_Context activityRecord = '''' then ''jenkins-x'' else ar_Context activityRecord)
      in \<lparr>BaseURL = TrimRight urlBase ''/'', Owner = ar_Owner activityRecord,
          Repository = ar_Repo activityRecord, Branch = ar_Branch activityRecord,
          Build = ar_BuildIdentifier activityRecord, Context = pipelineContext, Team = team\<rparr>)"

text \<open>
  The report URL of the job: the warnings of the rendering and the job, with the URL
  assigned when the base is configured and the rendered text has a web scheme.
\<close>

definition assignReportURL ::
  "string \<Rightarrow> LighthouseJobReconciler \<Rightarrow> env \<Rightarrow> ActivityRecord \<Rightarrow> LighthouseJob
     \<Rightarrow> event list \<times> LighthouseJob" where
  "assignReportURL templateText r e activityRecord job =
     (if getReportURLBase e \<noteq> '''' then
        (case createReportTargetURL e templateText (reportParams r e activityRecord) of
           (warnings, targetURL) \<Rightarrow>
             if HasPrefix targetURL ''http://'' \<or> HasPrefix targetURL ''https://''
             then (warnings, job\<lparr>Status := (Status job)\<lparr>ReportURL := targetURL\<rparr>\<rparr>)
             else (warnings, job))
      else ([], job))"

definition mirrorActivity ::
  "string \<Rightarrow> LighthouseJobReconciler \<Rightarrow> env \<Rightarrow> LighthouseJob \<Rightarrow> PipelineActivity \<Rightarrow> world
     \<Rightarrow> result \<times> world" where
  "mirrorActivity templateText r e job pipelineActivity w =
     (case setLabel job (BuildNumLabel e) (pa_Build pipelineActivity) of
        Inl f \<Rightarrow> (Inl f, w)
      | Inr job1 \<Rightarrow>
          (case clientUpdate e job1 w of
             (Some err, w1) \<Rightarrow>
               (Inl (Returned err), emit (Log ''failed to update Project status'') w1)
           | (None, w1) \<Rightarrow>
               (case ConvertPipelineActivity e pipelineActivity of
                  Inl err \<Rightarrow> (Inl (Returned err), w1)
                | Inr activityRecord \<Rightarrow>
                    (case assignReportURL templateText r e activityRecord job1 of
                       (warnings, job2) \<Rightarrow>
                         (let w2 = emits warnings w1;
                              job3 = job2\<lparr>Status := (Status job2)\<lparr>Activity := Some activityRecord\<rparr>\<rparr>
                          in case clientStatusUpdate e job3 w2 of
                               (Some err, w3) \<Rightarrow>
                                 (Inl (Returned err),
                                  emit (Log ''Failed to update LighthouseJob status'') w3)
                             | (None, w3) \<Rightarrow> (Inr (), w3))))))"

subsection \<open>One reconciliation\<close>

text \<open>
  \<open>ReconcileWith\<close> is \<^verbatim>\<open>Reconcile\<close> with the text of the template as an argument;
  \<open>Reconcile\<close> passes the constant of the source.
\<close>

definition ReconcileWith ::
  "string \<Rightarrow> LighthouseJobReconciler \<Rightarrow> env \<Rightarrow> Request \<Rightarrow> world \<Rightarrow> result \<times> world" where
  "ReconcileWith templateText r e req w =
     (let w0 = emit (Log ''Reconcile LighthouseJob'') w in
      case clientGet e req w0 of
        Inl err \<Rightarrow>
          (case IgnoreNotFound err of
             None \<Rightarrow> (Inr (), emit (Log ''Unable to get LighthouseJob'') w0)
           | Some err' \<Rightarrow> (Inl (Returned err'), emit (Log ''Unable to get LighthouseJob'') w0))
      | Inr job \<Rightarrow>
          if Agent (Spec job) \<noteq> JenkinsXAgent e \<and> Agent (Spec job) \<noteq> LegacyDefaultAgent e
          then (Inr (), w0)
          else
            (case clientList e (fst req) (ActivityName (Status job)) w0 of
               Inl err \<Rightarrow> (Inl (Returned err), emit (Log ''Failed list pipeline runs'') w0)
             | Inr items \<Rightarrow>
                 if length items = 0 then
                   (if State (Status job) = TriggeredState then triggerPipeline r e job w0
                    else (Inr (), w0))
                 else if length items = 1 then mirrorActivity templateText r e job (items ! 0) w0
                 else
                   (Inr (),
                    emit (Log ''A lighthouse job should never have more than 1 pipeline activity'') w0)))"

definition Reconcile ::
  "LighthouseJobReconciler \<Rightarrow> env \<Rightarrow> Request \<Rightarrow> world \<Rightarrow> result \<times> world" where
  "Reconcile = ReconcileWith defaultTargetURLTemplate"

subsection \<open>Notions for the statements\<close>

text \<open>
  A reconciliation of \<open>req\<close> in \<open>w\<close> loads \<open>job\<close> and finds \<open>items\<close>: the read succeeds,
  the job is stored under its own key, its agent is one this controller serves, and the
  list of its correlated activities succeeds with \<open>items\<close>.
\<close>

definition reconciles ::
  "env \<Rightarrow> Request \<Rightarrow> world \<Rightarrow> LighthouseJob \<Rightarrow> PipelineActivity list \<Rightarrow> bool" where
  "reconciles e req w job items =
     (getErr e = None \<and> jobs w req = Some job \<and> jobKey job = req
      \<and> (Agent (Spec job) = JenkinsXAgent e \<or> Agent (Spec job) = LegacyDefaultAgent e)
      \<and> listErr e = None
      \<and> matchingActivities e (fst req) (ActivityName (Status job)) w = items)"

text \<open>The calls to the engine's create and to its apply in a trace, with their arguments.\<close>

fun createCalls :: "event list \<Rightarrow> PipelineCreateParam list" where
  "createCalls [] = []"
| "createCalls (CallCreate p # evs) = p # createCalls evs"
| "createCalls (ev # evs) = createCalls evs"

fun applyCalls :: "event list \<Rightarrow> (ActivityKey \<times> CRDWrapper) list" where
  "applyCalls [] = []"
| "applyCalls (CallApply k c # evs) = (k, c) # applyCalls evs"
| "applyCalls (ev # evs) = applyCalls evs"

text \<open>The jobs that the status writes of a trace submit.\<close>

fun statusWrites :: "event list \<Rightarrow> LighthouseJob list" where
  "statusWrites [] = []"
| "statusWrites (CallStatusUpdate job # evs) = job # statusWrites evs"
| "statusWrites (ev # evs) = statusWrites evs"

text \<open>
  The parameters that the trigger builds for the engine's create, \<open>None\<close> when it panics
  before the call; and the line that it logs for a job with references.
\<close>

definition triggerParam :: "env \<Rightarrow> LighthouseJobSpec \<Rightarrow> PipelineCreateParam option" where
  "triggerParam e spec =
     (case Refs spec of
        None \<Rightarrow> None
      | Some refs \<Rightarrow>
          (case pipelineCreateParam e spec refs (pullRefOf (CloneURI refs) refs) of
             Inl f \<Rightarrow> None
           | Inr param \<Rightarrow> Some param))"

definition pullRefsDescriptor :: "env \<Rightarrow> LighthouseJobSpec \<Rightarrow> Refs \<Rightarrow> string" where
  "pullRefsDescriptor e spec refs =
     triggerPullRefs refs (pullRefOf (CloneURI refs) refs) (triggerBranch e spec)"

definition triggerLogLine :: "env \<Rightarrow> LighthouseJobSpec \<Rightarrow> Refs \<Rightarrow> event" where
  "triggerLogLine e spec refs =
     LogFields (triggerLogFields spec refs (triggerBranch e spec) (pullRefsDescriptor e spec refs))
       ''about to start Jenkinx X meta pipeline''"

text \<open>
  Reconciliations of one request one after the other. Before each, the engine and the
  cluster may have replaced the activities; each has its own environment.
\<close>

fun reconcileAll ::
  "LighthouseJobReconciler \<Rightarrow> (env \<times> PipelineActivity list) list \<Rightarrow> Request \<Rightarrow> world \<Rightarrow> world" where
  "reconcileAll r [] req w = w"
| "reconcileAll r ((e, acts) # steps) req w =
     reconcileAll r steps req (snd (Reconcile r e req (w\<lparr>activities := acts\<rparr>)))"

text \<open>The job of a request is past the trigger point, or there is no such job.\<close>

definition untriggered :: "world \<Rightarrow> Request \<Rightarrow> bool" where
  "untriggered w req =
     (case jobs w req of None \<Rightarrow> True | Some job \<Rightarrow> State (Status job) \<noteq> TriggeredState)"

text \<open>The stored status of a request's job, its stored labels, the context of its stored snapshot.\<close>

definition storedStatus :: "world \<Rightarrow> Request \<Rightarrow> LighthouseJobStatus option" where
  "storedStatus w req = map_option Status (jobs w req)"


definition snapshotContext :: "world \<Rightarrow> Request \<Rightarrow> string option" where
  "snapshotContext w req =
     (case jobs w req of
        None \<Rightarrow> None
      | Some job \<Rightarrow> (case Activity (Status job) of None \<Rightarrow> None | Some a \<Rightarrow> Some (ar_Context a)))"



text \<open>The rendering inside \<^verbatim>\<open>createReportTargetURL\<close>, with its failure kept.\<close>

datatype render_failure = NotConverted error | NotRendered template_error

definition renderReportURL :: "env \<Rightarrow> string \<Rightarrow> ReportParams \<Rightarrow> render_failure + string" where
  "renderReportURL e templateText params =
     (case toObjectMap e params of
        Inl err \<Rightarrow> Inl (NotConverted err)
      | Inr templateData \<Rightarrow>
          (case templateRender e templateText templateData of
             Inl err \<Rightarrow> Inl (NotRendered err)
           | Inr url \<Rightarrow> Inr url))"

definition webURL :: "string \<Rightarrow> bool" where
  "webURL url = (HasPrefix url ''http://'' \<or> HasPrefix url ''https://'')"

subsection \<open>The scenario of the tests: job dummy in namespace jx\<close>

text \<open>
  The two methods of the spec in the scenario: the branch is the base branch, or the pull
  request of a job that is neither a postsubmit nor a batch job; the variables of such a
  job hold the number of its first pull request, and there are none to build when it has
  no pull request.
\<close>

definition exampleGetBranch :: "LighthouseJobSpec \<Rightarrow> string" where
  "exampleGetBranch spec =
     (case Refs spec of
        None \<Rightarrow> ''''
      | Some refs \<Rightarrow>
          if Type spec = ''postsubmit'' \<or> Type spec = ''batch'' then BaseRef refs
          else (case Pulls refs of [] \<Rightarrow> BaseRef refs | pull # pulls \<Rightarrow> ''PR-'' @ Itoa (Number pull)))"

definition exampleGetEnvVars :: "LighthouseJobSpec \<Rightarrow> (string \<times> string) list option" where
  "exampleGetEnvVars spec =
     (case Refs spec of
        None \<Rightarrow> Some [(''JOB_NAME'', Spec_Job spec)]
      | Some refs \<Rightarrow>
          if Type spec = ''postsubmit'' \<or> Type spec = ''batch''
          then Some [(''JOB_NAME'', Spec_Job spec), (''PULL_BASE_REF'', BaseRef refs)]
          else (case Pulls refs of
                  [] \<Rightarrow> None
                | pull # pulls \<Rightarrow>
                    Some [(''JOB_NAME'', Spec_Job spec), (''PULL_BASE_REF'', BaseRef refs),
                          (''PULL_NUMBER'', Itoa (Number pull))]))"

definition exampleEnv :: env where
  "exampleEnv =
     \<lparr>Getenv = (\<lambda>k. if k = ''LIGHTHOUSE_REPORT_URL_BASE'' then ''https://example.com''
                    else if k = ''LIGHTHOUSE_REPORT_URL_TEAM'' then ''some-team'' else ''''),
      Now = 1600000000,
      ToValidName = map (\<lambda>c. if c = CHR ''_'' then CHR ''-'' else c),
      GetBranch = exampleGetBranch,
      GetEnvVars = exampleGetEnvVars,
      JenkinsXAgent = ''jenkins-x'',
      LegacyDefaultAgent = ''tekton'',
      BuildNumLabel = ''build-number'',
      yamlRoundTrip = (\<lambda>s. if CHR 0x7F \<in> set s
                           then Inl (LibraryError ''yaml: control characters are not allowed'')
                           else Inr s),
      templateLibrary = (\<lambda>templateText templateData. Inl (ParseError ''not in the scenario'')),
      getErr = None, listErr = None, updateErr = None, convertErr = None,
      statusUpdateErr = None\<rparr>"

definition exampleKey :: ActivityKey where
  "exampleKey = \<lparr>Key_Name = ''acme-widgets-main-3''\<rparr>"

definition exampleReconciler :: LighthouseJobReconciler where
  "exampleReconciler =
     \<lparr>namespace = ''jx'',
      mpClient_Create = (\<lambda>param. Inr (exampleKey, CRDWrapper ''run'')),
      mpClient_Apply = (\<lambda>key crds. None)\<rparr>"

definition exampleRefs :: Refs where
  "exampleRefs =
     \<lparr>Org = ''acme'', Repo = ''widgets'', CloneURI = ''https://github.com/acme/widgets.git'',
      BaseRef = ''main'', BaseSHA = ''0123abc'', Pulls = []\<rparr>"

definition exampleSpec :: LighthouseJobSpec where
  "exampleSpec =
     \<lparr>Type = ''postsubmit'', Agent = ''jenkins-x'', Refs = Some exampleRefs, Spec_Context = '''',
      Spec_Job = ''release''\<rparr>"

definition triggered :: LighthouseJobStatus where
  "triggered =
     \<lparr>State = TriggeredState, ActivityName = '''', StartTime = None, ReportURL = '''',
      Activity = None\<rparr>"

definition exampleJob :: LighthouseJob where
  "exampleJob =
     \<lparr>Name = ''dummy'', Namespace = ''jx'', Labels = Some [''app'' \<mapsto> ''lighthouse''],
      Spec = exampleSpec, Status = triggered\<rparr>"

definition exampleReq :: Request where
  "exampleReq = (''jx'', ''dummy'')"

definition worldOf :: "LighthouseJob \<Rightarrow> PipelineActivity list \<Rightarrow> world" where
  "worldOf job acts = \<lparr>jobs = [exampleReq \<mapsto> job], activities = acts, trace = []\<rparr>"

definition exampleWorld :: world where
  "exampleWorld = worldOf exampleJob []"

text \<open>
  Two activities whose names have the same valid name, the first with no context, and one
  with a context.
\<close>

definition exampleActivity :: PipelineActivity where
  "exampleActivity =
     \<lparr>pa_Name = ''acme-widgets-main-3'', pa_Namespace = ''jx'', pa_Build = ''3'',
      pa_GitOwner = ''acme'', pa_GitRepository = ''widgets'', pa_GitBranch = ''main'',
      pa_Context = ''''\<rparr>"

definition secondActivity :: PipelineActivity where
  "secondActivity = exampleActivity\<lparr>pa_Name := ''acme_widgets_main_3'', pa_Build := ''4''\<rparr>"

definition contextActivity :: PipelineActivity where
  "contextActivity = exampleActivity\<lparr>pa_Context := ''pr-build''\<rparr>"

text \<open>The job once it is pending, with its labels or with the nil map, and its worlds.\<close>

definition pendingJob :: LighthouseJob where
  "pendingJob = exampleJob\<lparr>Status := pendingStatus exampleEnv exampleKey\<rparr>"

definition pendingWorld :: "PipelineActivity list \<Rightarrow> world" where
  "pendingWorld acts = worldOf pendingJob acts"

definition unlabelledJob :: LighthouseJob where
  "unlabelledJob = pendingJob\<lparr>Labels := None\<rparr>"

definition unlabelledWorld :: world where
  "unlabelledWorld = worldOf unlabelledJob [exampleActivity]"

text \<open>An engine whose create fails, one whose apply fails, one that returns an empty name.\<close>

definition failingCreate :: LighthouseJobReconciler where
  "failingCreate = exampleReconciler\<lparr>mpClient_Create := (\<lambda>param. Inl (EngineError ''no''))\<rparr>"

definition failingApply :: LighthouseJobReconciler where
  "failingApply = exampleReconciler\<lparr>mpClient_Apply := (\<lambda>key crds. Some (EngineError ''no''))\<rparr>"

definition namelessCreate :: LighthouseJobReconciler where
  "namelessCreate =
     exampleReconciler\<lparr>mpClient_Create := (\<lambda>param. Inr (\<lparr>Key_Name = ''''\<rparr>, CRDWrapper ''run''))\<rparr>"

text \<open>
  A presubmit job for the pull request 5, a job with no type and no pull request, and a job
  whose references are nil.
\<close>

definition pullRequestRefs :: Refs where
  "pullRequestRefs = exampleRefs\<lparr>Pulls := [\<lparr>Number = 5, SHA = ''abc''\<rparr>]\<rparr>"

definition pullRequestSpec :: LighthouseJobSpec where
  "pullRequestSpec = exampleSpec\<lparr>Type := ''presubmit'', Refs := Some pullRequestRefs\<rparr>"

definition pullRequestJob :: LighthouseJob where
  "pullRequestJob = exampleJob\<lparr>Spec := pullRequestSpec\<rparr>"

definition untypedJob :: LighthouseJob where
  "untypedJob = exampleJob\<lparr>Spec := exampleSpec\<lparr>Type := ''''\<rparr>\<rparr>"

definition nilRefsJob :: LighthouseJob where
  "nilRefsJob = exampleJob\<lparr>Spec := exampleSpec\<lparr>Refs := None\<rparr>\<rparr>"

text \<open>The environment with no base of the report URL configured.\<close>

definition quietEnv :: env where
  "quietEnv = exampleEnv\<lparr>Getenv := (\<lambda>k. '''')\<rparr>"

text \<open>The pending job with a report URL from an earlier reconciliation.\<close>

definition reportedJob :: LighthouseJob where
  "reportedJob = pendingJob\<lparr>Status := (Status pendingJob)\<lparr>ReportURL := ''https://old.example.com/3''\<rparr>\<rparr>"

definition reportedWorld :: world where
  "reportedWorld = worldOf reportedJob [exampleActivity]"



section \<open>Properties\<close>
subsection \<open>The branches of a reconciliation\<close>

lemma emit_simps [simp]:
  "jobs (emit ev w) = jobs w" "activities (emit ev w) = activities w"
  "trace (emit ev w) = trace w @ [ev]"
  by (simp_all add: emit_def)

lemma emits_simps [simp]:
  "jobs (emits evs w) = jobs w" "activities (emits evs w) = activities w"
  "trace (emits evs w) = trace w @ evs"
  by (simp_all add: emits_def)

lemma matchingActivities_emit [simp]:
  "matchingActivities e ns a (emit ev w) = matchingActivities e ns a w"
  by (simp add: matchingActivities_def)

lemma reconcile_loaded:
  assumes "reconciles e req w job items"
  shows "clientGet e req (emit ev w) = Inr job"
    and "\<not> (Agent (Spec job) \<noteq> JenkinsXAgent e \<and> Agent (Spec job) \<noteq> LegacyDefaultAgent e)"
    and "clientList e (fst req) (ActivityName (Status job)) (emit ev w) = Inr items"
  using assms by (auto simp add: reconciles_def clientGet_def clientList_def)

lemma createCalls_append [simp]: "createCalls (xs @ ys) = createCalls xs @ createCalls ys"
  by (induction xs rule: createCalls.induct) simp_all

lemma applyCalls_append [simp]: "applyCalls (xs @ ys) = applyCalls xs @ applyCalls ys"
  by (induction xs rule: applyCalls.induct) simp_all

lemma statusWrites_append [simp]: "statusWrites (xs @ ys) = statusWrites xs @ statusWrites ys"
  by (induction xs rule: statusWrites.induct) simp_all

lemma reconcile_trigger:
  assumes "reconciles e req w job []" and "State (Status job) = TriggeredState"
  shows "ReconcileWith t r e req w = triggerPipeline r e job (emit (Log ''Reconcile LighthouseJob'') w)"
  using assms(2) reconcile_loaded [OF assms(1)]
  by (auto simp add: ReconcileWith_def Let_def)

lemma reconcile_mirror:
  assumes "reconciles e req w job [pa]"
  shows "ReconcileWith t r e req w = mirrorActivity t r e job pa (emit (Log ''Reconcile LighthouseJob'') w)"
  using reconcile_loaded [OF assms]
  by (auto simp add: ReconcileWith_def Let_def)

lemma reconcile_many:
  assumes "reconciles e req w job items" and "1 < length items"
  shows "ReconcileWith t r e req w =
           (Inr (), emits [Log ''Reconcile LighthouseJob'',
                           Log ''A lighthouse job should never have more than 1 pipeline activity''] w)"
  using assms(2) reconcile_loaded [OF assms(1)]
  by (auto simp add: ReconcileWith_def Let_def emit_def emits_def)

lemma statusUpdate_refused:
  assumes "statusUpdateErr e = Some err"
  shows "clientStatusUpdate e job w = (Some err, emit (CallStatusUpdate job) w)"
  using assms by (simp add: clientStatusUpdate_def Let_def)

lemma update_refused:
  assumes "updateErr e = Some err"
  shows "clientUpdate e job w = (Some err, emit (CallUpdate job) w)"
  using assms by (simp add: clientUpdate_def Let_def)

subsection \<open>What the trigger does\<close>

lemma triggerParam_Some:
  assumes "triggerParam e spec = Some param"
  obtains refs vars where "Refs spec = Some refs" and "GetEnvVars e spec = Some vars"
    and "pipelineCreateParam e spec refs (pullRefOf (CloneURI refs) refs) = Inr param"
  using assms
  by (auto simp add: triggerParam_def pipelineCreateParam_def split: option.splits sum.splits)

lemma triggerParam_None:
  "triggerParam e spec = None \<longleftrightarrow> Refs spec = None \<or> GetEnvVars e spec = None"
  by (auto simp add: triggerParam_def pipelineCreateParam_def split: option.splits)

lemma trigger_panics:
  assumes "triggerParam e (Spec job) = None"
  shows "\<exists>msg. fst (triggerPipeline r e job w) = Inl (Panic msg)"
    and "jobs (snd (triggerPipeline r e job w)) = jobs w"
    and "createCalls (trace (snd (triggerPipeline r e job w))) = createCalls (trace w)"
    and "applyCalls (trace (snd (triggerPipeline r e job w))) = applyCalls (trace w)"
    and "statusWrites (trace (snd (triggerPipeline r e job w))) = statusWrites (trace w)"
  using assms
  by (auto simp add: triggerPipeline_def triggerParam_def getPullRefs_def pipelineCreateParam_def
      Let_def split: option.splits)

lemma trigger_nil_refs:
  assumes "Refs (Spec job) = None"
  shows "triggerPipeline r e job w = (Inl (Panic nilPointer), w)"
  using assms by (simp add: triggerPipeline_def)

lemma trigger_no_env_vars:
  assumes "Refs (Spec job) = Some refs" and "GetEnvVars e (Spec job) = None"
  shows "triggerPipeline r e job w =
           (Inl (Panic ''index out of range''), emit (triggerLogLine e (Spec job) refs) w)"
  using assms
  by (simp add: triggerPipeline_def getPullRefs_def pipelineCreateParam_def Let_def
      triggerLogLine_def pullRefsDescriptor_def)

lemma triggerParam_built:
  assumes "Refs spec = Some refs" and "triggerParam e spec = Some param"
  shows "pipelineCreateParam e spec refs (pullRefOf (CloneURI refs) refs) = Inr param"
  using assms by (simp add: triggerParam_def split: sum.splits)

lemma trigger_create_fails:
  assumes "Refs (Spec job) = Some refs" and "triggerParam e (Spec job) = Some param"
    and "mpClient_Create r param = Inl err"
  shows "fst (triggerPipeline r e job w) = Inl (Returned (Wrap err ''unable to create Tekton CRDs''))"
    and "jobs (snd (triggerPipeline r e job w)) = jobs w"
    and "trace (snd (triggerPipeline r e job w)) =
           trace w @ [triggerLogLine e (Spec job) refs, CallCreate param]"
  using assms(1,3) triggerParam_built [OF assms(1,2)]
  by (simp_all add: triggerPipeline_def getPullRefs_def Let_def
      triggerLogLine_def pullRefsDescriptor_def)

lemma trigger_write_refused:
  assumes "Refs (Spec job) = Some refs" and "triggerParam e (Spec job) = Some param"
    and "mpClient_Create r param = Inr (key, crds)"
    and "statusUpdateErr e = Some err"
  shows "fst (triggerPipeline r e job w) = Inl (Returned err)"
    and "jobs (snd (triggerPipeline r e job w)) = jobs w"
    and "trace (snd (triggerPipeline r e job w)) =
           trace w @ [triggerLogLine e (Spec job) refs, CallCreate param,
                      CallStatusUpdate (job\<lparr>Status := pendingStatus e key\<rparr>),
                      Log ''Failed to update LighthouseJob status'']"
  using assms(1,3,4) triggerParam_built [OF assms(1,2)]
  by (simp_all add: triggerPipeline_def getPullRefs_def Let_def
      triggerLogLine_def pullRefsDescriptor_def statusUpdate_refused)

lemma trigger_written:
  assumes "Refs (Spec job) = Some refs" and "triggerParam e (Spec job) = Some param"
    and "mpClient_Create r param = Inr (key, crds)"
    and "statusUpdateErr e = None" and "jobs w (jobKey job) = Some job"
  shows "fst (triggerPipeline r e job w) =
           (case mpClient_Apply r key crds of
              Some err \<Rightarrow> Inl (Returned (Wrap err ''unable to apply Tekton CRDs''))
            | None \<Rightarrow> Inr ())"
    and "jobs (snd (triggerPipeline r e job w)) =
           (jobs w)(jobKey job \<mapsto> job\<lparr>Status := pendingStatus e key\<rparr>)"
    and "trace (snd (triggerPipeline r e job w)) =
           trace w @ [triggerLogLine e (Spec job) refs, CallCreate param,
                      CallStatusUpdate (job\<lparr>Status := pendingStatus e key\<rparr>),
                      CallApply key crds]"
  using assms(1,3,4,5) triggerParam_built [OF assms(1,2)]
  by (simp_all add: triggerPipeline_def getPullRefs_def Let_def
      triggerLogLine_def pullRefsDescriptor_def clientStatusUpdate_def jobKey_def
      split: option.splits)

lemma trigger_createCalls:
  "createCalls (trace (snd (triggerPipeline r e job w))) =
     createCalls (trace w) @ (case triggerParam e (Spec job) of None \<Rightarrow> [] | Some param \<Rightarrow> [param])"
  by (simp add: triggerPipeline_def triggerParam_def getPullRefs_def Let_def
      clientStatusUpdate_def split: sum.splits prod.splits option.splits)

lemma trigger_logs:
  assumes "Refs (Spec job) = Some refs"
  shows "triggerLogLine e (Spec job) refs \<in> set (trace (snd (triggerPipeline r e job w)))"
  using assms
  by (simp add: triggerPipeline_def getPullRefs_def Let_def triggerLogLine_def
      pullRefsDescriptor_def clientStatusUpdate_def
      split: sum.splits prod.splits option.splits)

subsection \<open>What the mirror does\<close>

lemma webURL_empty [simp]: "\<not> webURL []"
  by (simp add: webURL_def HasPrefix_def)

lemma createReportTargetURL_render:
  "snd (createReportTargetURL e t p) = (case renderReportURL e t p of Inl f \<Rightarrow> [] | Inr url \<Rightarrow> url)"
  by (simp add: createReportTargetURL_def renderReportURL_def
      split: sum.splits template_error.splits)

lemma assignReportURL_job:
  "snd (assignReportURL t r e a job) =
     job\<lparr>Status := (Status job)\<lparr>ReportURL :=
       (if getReportURLBase e \<noteq> [] \<and> webURL (snd (createReportTargetURL e t (reportParams r e a)))
        then snd (createReportTargetURL e t (reportParams r e a))
        else ReportURL (Status job))\<rparr>\<rparr>"
  by (simp add: assignReportURL_def webURL_def split: prod.splits)

lemma mirror_panics:
  assumes "Labels job = None"
  shows "mirrorActivity t r e job pa w = (Inl (Panic ''assignment to entry in nil map''), w)"
  using assms by (simp add: mirrorActivity_def setLabel_def)

lemma mirror_update_refused:
  assumes "Labels job = Some m" and "updateErr e = Some err"
  shows "fst (mirrorActivity t r e job pa w) = Inl (Returned err)"
    and "jobs (snd (mirrorActivity t r e job pa w)) = jobs w"
  using assms by (simp_all add: mirrorActivity_def setLabel_def update_refused)

lemma mirror_convert_fails:
  assumes "Labels job = Some m" and "updateErr e = None" and "ConvertPipelineActivity e pa = Inl err"
    and "jobs w (jobKey job) = Some job"
  shows "fst (mirrorActivity t r e job pa w) = Inl (Returned err)"
    and "jobs (snd (mirrorActivity t r e job pa w)) =
           (jobs w)(jobKey job \<mapsto> job\<lparr>Labels := Some (m(BuildNumLabel e \<mapsto> pa_Build pa))\<rparr>)"
  using assms
  by (simp_all add: mirrorActivity_def setLabel_def clientUpdate_def jobKey_def Let_def)

lemma mirror_write_refused:
  assumes "Labels job = Some m" and "updateErr e = None" and "statusUpdateErr e = Some err"
    and "jobs w (jobKey job) = Some job" and "ConvertPipelineActivity e pa = Inr a"
  shows "fst (mirrorActivity t r e job pa w) = Inl (Returned err)"
    and "jobs (snd (mirrorActivity t r e job pa w)) =
           (jobs w)(jobKey job \<mapsto> job\<lparr>Labels := Some (m(BuildNumLabel e \<mapsto> pa_Build pa))\<rparr>)"
  using assms
  by (simp_all add: mirrorActivity_def setLabel_def clientUpdate_def clientStatusUpdate_def
        jobKey_def Let_def split: prod.splits)

lemma mirror_written:
  assumes "Labels job = Some m" and "updateErr e = None" and "statusUpdateErr e = None"
    and "jobs w (jobKey job) = Some job" and "ConvertPipelineActivity e pa = Inr a"
  shows "fst (mirrorActivity t r e job pa w) = Inr ()"
    and "jobs (snd (mirrorActivity t r e job pa w)) =
           (jobs w)(jobKey job \<mapsto>
              job\<lparr>Labels := Some (m(BuildNumLabel e \<mapsto> pa_Build pa)),
                  Status := (Status job)\<lparr>ReportURL :=
                     (if getReportURLBase e \<noteq> [] \<and> webURL (snd (createReportTargetURL e t (reportParams r e a)))
                      then snd (createReportTargetURL e t (reportParams r e a))
                      else ReportURL (Status job)),
                    Activity := Some a\<rparr>\<rparr>)"
proof -
  let ?job1 = "job\<lparr>Labels := Some (m(BuildNumLabel e \<mapsto> pa_Build pa))\<rparr>"
  obtain ws job2 where a: "assignReportURL t r e a ?job1 = (ws, job2)"
    by (cases "assignReportURL t r e a ?job1")
  have j2: "job2 = snd (assignReportURL t r e a ?job1)"
    using a by simp
  show "fst (mirrorActivity t r e job pa w) = Inr ()"
    using assms a
    by (simp add: mirrorActivity_def setLabel_def clientUpdate_def clientStatusUpdate_def
        jobKey_def Let_def j2 assignReportURL_job)
  show "jobs (snd (mirrorActivity t r e job pa w)) =
           (jobs w)(jobKey job \<mapsto>
              job\<lparr>Labels := Some (m(BuildNumLabel e \<mapsto> pa_Build pa)),
                  Status := (Status job)\<lparr>ReportURL :=
                     (if getReportURLBase e \<noteq> [] \<and> webURL (snd (createReportTargetURL e t (reportParams r e a)))
                      then snd (createReportTargetURL e t (reportParams r e a))
                      else ReportURL (Status job)),
                    Activity := Some a\<rparr>\<rparr>)"
    using assms a
    by (simp add: mirrorActivity_def setLabel_def clientUpdate_def clientStatusUpdate_def
        jobKey_def Let_def j2 assignReportURL_job)
qed

text \<open>A mirror that returns the nil error has met none of its four failures.\<close>

lemma mirror_succeeds:
  assumes "fst (mirrorActivity t r e job pa w) = Inr ()"
  obtains m a where "Labels job = Some m" and "updateErr e = None"
    and "ConvertPipelineActivity e pa = Inr a" and "statusUpdateErr e = None"
  using assms
  by (auto simp add: mirrorActivity_def setLabel_def clientUpdate_def clientStatusUpdate_def
      Let_def split: option.splits sum.splits prod.splits)

lemma warnings_are_logs:
  "createCalls (fst (createReportTargetURL e t p)) = []"
  "applyCalls (fst (createReportTargetURL e t p)) = []"
  "statusWrites (fst (createReportTargetURL e t p)) = []"
  by (simp_all add: createReportTargetURL_def split: sum.splits template_error.splits)

lemma assignReportURL_warnings:
  "createCalls (fst (assignReportURL t r e a job)) = []"
  "applyCalls (fst (assignReportURL t r e a job)) = []"
  "statusWrites (fst (assignReportURL t r e a job)) = []"
  using warnings_are_logs [of e t "reportParams r e a"]
  by (auto simp add: assignReportURL_def split: prod.splits)

lemma assignReportURL_warnings_eq:
  assumes "assignReportURL t r e a job = (ws, job2)"
  shows "createCalls ws = []" and "applyCalls ws = []" and "statusWrites ws = []"
  using assignReportURL_warnings [of t r e a job] assms by simp_all

lemma mirror_createCalls:
  "createCalls (trace (snd (mirrorActivity t r e job pa w))) = createCalls (trace w)"
  "applyCalls (trace (snd (mirrorActivity t r e job pa w))) = applyCalls (trace w)"
  by (auto simp add: mirrorActivity_def Let_def clientStatusUpdate_def clientUpdate_def
      assignReportURL_warnings_eq
      split: sum.splits prod.splits option.splits)

text \<open>Every status write of the mirror submits the converted record as the snapshot.\<close>

lemma mirror_statusWrites:
  "\<exists>ws. statusWrites (trace (snd (mirrorActivity t r e job pa w))) = statusWrites (trace w) @ ws
        \<and> (\<forall>job' \<in> set ws. \<exists>a. ConvertPipelineActivity e pa = Inr a \<and> Activity (Status job') = Some a)"
  by (auto simp add: mirrorActivity_def Let_def clientStatusUpdate_def clientUpdate_def
      assignReportURL_warnings_eq
      split: sum.splits prod.splits option.splits)

lemma setLabel_Inr:
  assumes "setLabel job k v = Inr job1"
  shows "Status job1 = Status job" and "jobKey job1 = jobKey job"
  using assms by (auto simp add: setLabel_def jobKey_def split: option.splits)

lemma assignReportURL_eq:
  assumes "assignReportURL t r e a job = (ws, job2)"
  shows "State (Status job2) = State (Status job) \<and> ActivityName (Status job2) = ActivityName (Status job)
         \<and> Namespace job2 = Namespace job \<and> Name job2 = Name job \<and> Labels job2 = Labels job"
proof -
  have "job2 = snd (assignReportURL t r e a job)" using assms by simp
  then show ?thesis by (simp add: assignReportURL_job)
qed

subsection \<open>Past the trigger point\<close>

lemma mirror_keeps_state:
  assumes "jobs w req = Some job" and "jobs (snd (mirrorActivity t r e job pa w)) req = Some job'"
  shows "State (Status job') = State (Status job)"
proof (cases "setLabel job (BuildNumLabel e) (pa_Build pa)")
  case (Inl f)
  with assms show ?thesis by (simp add: mirrorActivity_def)
next
  case (Inr job1)
  note j1 = setLabel_Inr [OF Inr]
  show ?thesis
    using assms Inr j1
    by (auto simp add: mirrorActivity_def Let_def clientStatusUpdate_def clientUpdate_def
        jobKey_def dest!: assignReportURL_eq
        split: sum.splits prod.splits option.splits if_splits)
qed

lemma reconcile_keeps_untriggered:
  assumes "untriggered w req"
  shows "createCalls (trace (snd (ReconcileWith t r e req w))) = createCalls (trace w)"
    and "untriggered (snd (ReconcileWith t r e req w)) req"
proof -
  show "createCalls (trace (snd (ReconcileWith t r e req w))) = createCalls (trace w)"
    using assms
    by (auto simp add: untriggered_def ReconcileWith_def Let_def clientGet_def clientList_def
        mirror_createCalls split: sum.splits option.splits)
next
  show "untriggered (snd (ReconcileWith t r e req w)) req"
  proof (cases "jobs w req")
    case None
    then show ?thesis
      by (auto simp add: untriggered_def ReconcileWith_def Let_def clientGet_def split: option.splits)
  next
    case (Some job)
    have "State (Status job') = State (Status job)"
      if "jobs (snd (ReconcileWith t r e req w)) req = Some job'" for job'
      using that Some assms
        mirror_keeps_state [of "emit (Log ''Reconcile LighthouseJob'') w" req job t r e _ job']
      by (auto simp add: untriggered_def ReconcileWith_def Let_def clientGet_def clientList_def
          split: sum.splits option.splits if_splits)
    with assms Some show ?thesis
      by (auto simp add: untriggered_def split: option.splits)
  qed
qed

lemma reconcileAll_no_create:
  assumes "untriggered w req"
  shows "createCalls (trace (reconcileAll r steps req w)) = createCalls (trace w)"
  using assms
proof (induction steps arbitrary: w)
  case Nil
  then show ?case by simp
next
  case (Cons step steps)
  obtain e acts where step: "step = (e, acts)" by (cases step)
  let ?w = "w\<lparr>activities := acts\<rparr>"
  have inv: "untriggered ?w req"
    using Cons.prems by (simp add: untriggered_def)
  have "createCalls (trace (reconcileAll r steps req (snd (Reconcile r e req ?w)))) =
          createCalls (trace (snd (Reconcile r e req ?w)))"
    by (rule Cons.IH) (use reconcile_keeps_untriggered(2) [OF inv] in \<open>simp add: Reconcile_def\<close>)
  also have "\<dots> = createCalls (trace ?w)"
    using reconcile_keeps_untriggered(1) [OF inv] by (simp add: Reconcile_def)
  finally show ?case by (simp add: step)
qed

subsection \<open>The scenario\<close>

lemmas example_defs =
  exampleEnv_def exampleReq_def exampleWorld_def worldOf_def exampleJob_def exampleSpec_def
  exampleRefs_def exampleKey_def exampleReconciler_def exampleActivity_def secondActivity_def
  contextActivity_def triggered_def pendingJob_def pendingWorld_def pendingStatus_def
  unlabelledJob_def unlabelledWorld_def failingCreate_def failingApply_def namelessCreate_def
  pullRequestJob_def pullRequestSpec_def pullRequestRefs_def untypedJob_def nilRefsJob_def
  quietEnv_def reportedJob_def reportedWorld_def

lemma example_triggered:
  "reconciles exampleEnv exampleReq exampleWorld exampleJob []"
  by (simp add: reconciles_def matchingActivities_def jobKey_def example_defs)

lemma example_pull_request:
  "reconciles exampleEnv exampleReq (worldOf pullRequestJob []) pullRequestJob []"
  by (simp add: reconciles_def matchingActivities_def jobKey_def example_defs)

lemma example_untyped:
  "reconciles exampleEnv exampleReq (worldOf untypedJob []) untypedJob []"
  by (simp add: reconciles_def matchingActivities_def jobKey_def example_defs)

lemma example_nil_refs:
  "reconciles exampleEnv exampleReq (worldOf nilRefsJob []) nilRefsJob []"
  by (simp add: reconciles_def matchingActivities_def jobKey_def example_defs)

lemma example_pending_one:
  "reconciles exampleEnv exampleReq (pendingWorld [exampleActivity]) pendingJob [exampleActivity]"
  by (simp add: reconciles_def matchingActivities_def jobKey_def example_defs)

lemma example_pending_context:
  "reconciles exampleEnv exampleReq (pendingWorld [contextActivity]) pendingJob [contextActivity]"
  by (simp add: reconciles_def matchingActivities_def jobKey_def example_defs)

lemma example_pending_two:
  "reconciles exampleEnv exampleReq (pendingWorld [exampleActivity, secondActivity]) pendingJob
     [exampleActivity, secondActivity]"
  by (simp add: reconciles_def matchingActivities_def jobKey_def example_defs)

lemma example_quiet:
  "reconciles quietEnv exampleReq reportedWorld reportedJob [exampleActivity]"
  by (simp add: reconciles_def matchingActivities_def jobKey_def example_defs)

lemma example_unlabelled:
  "reconciles exampleEnv exampleReq unlabelledWorld unlabelledJob [exampleActivity]"
  by (simp add: reconciles_def matchingActivities_def jobKey_def example_defs)

text \<open>The parameters and the descriptors of the scenario.\<close>

lemma example_params:
  "triggerParam exampleEnv (Spec exampleJob) =
     Some \<lparr>PullRef = NewPullRef ''https://github.com/acme/widgets.git'' ''main'' ''0123abc'',
           PipelineKind = ReleasePipeline, param_Context = '''', ServiceAccount = ''tekton-bot'',
           DefaultImage = '''',
           EnvVariables = [(''JOB_NAME'', ''release''), (''PULL_BASE_REF'', ''main'')]\<rparr>"
  "triggerParam exampleEnv (Spec untypedJob) = None"
  "triggerParam exampleEnv (Spec nilRefsJob) = None"
  "map_option PipelineKind (triggerParam exampleEnv (Spec pullRequestJob)) = Some PullRequestPipeline"
  by (simp_all add: triggerParam_def pipelineCreateParam_def pullRefOf_def triggerKind_def
      triggerServiceAccount_def exampleGetEnvVars_def example_defs)

lemma example_descriptors:
  "pullRefsDescriptor exampleEnv (Spec exampleJob) exampleRefs = ''main:''"
  "pullRefsDescriptor exampleEnv (Spec pullRequestJob) pullRequestRefs = ''main:0123abc,5:abc''"
  by (simp_all add: pullRefsDescriptor_def triggerPullRefs_def triggerBranch_def pullRefOf_def
      PullRef_String_def NewPullRefWithPullRequest_def exampleGetBranch_def Itoa_def
      natToDec.simps digit_def example_defs)

lemma example_convert:
  "ConvertPipelineActivity exampleEnv exampleActivity =
     Inr \<lparr>ar_Owner = ''acme'', ar_Repo = ''widgets'', ar_Branch = ''main'',
          ar_BuildIdentifier = ''3'', ar_Context = ''jenkins-x''\<rparr>"
  "ConvertPipelineActivity quietEnv exampleActivity =
     Inr \<lparr>ar_Owner = ''acme'', ar_Repo = ''widgets'', ar_Branch = ''main'',
          ar_BuildIdentifier = ''3'', ar_Context = ''jenkins-x''\<rparr>"
  by (simp_all add: ConvertPipelineActivity_def example_defs)

lemmas template_defs =
  templateRender_def templateParse_def parseAction_def fieldName_def isSpace_def
  isAlphaNumeric_def isDigit_def toObjectMap_def paramFields_def

lemma example_render:
  "renderReportURL exampleEnv defaultTargetURLTemplate
     (reportParams exampleReconciler exampleEnv
        \<lparr>ar_Owner = ''acme'', ar_Repo = ''widgets'', ar_Branch = ''main'',
           ar_BuildIdentifier = ''3'', ar_Context = ''jenkins-x''\<rparr>)
   = Inr ''https://example.com/teams/some-team/projects/acme/widgets/main/3''"
  by (simp add: renderReportURL_def template_defs defaultTargetURLTemplate_def reportParams_def
      getReportURLBase_def getReportURLTeam_def baseTargetURLEnvVar_def targetURLTeamEnvVar_def
      TrimRight_def exampleEnv_def exampleReconciler_def)

text \<open>The mirror of the scenario succeeds.\<close>

lemma example_mirror_ok:
  "fst (ReconcileWith t exampleReconciler exampleEnv exampleReq (pendingWorld [exampleActivity])) = Inr ()"
  "fst (ReconcileWith t exampleReconciler exampleEnv exampleReq (pendingWorld [contextActivity])) = Inr ()"
  "fst (ReconcileWith t exampleReconciler quietEnv exampleReq reportedWorld) = Inr ()"
proof -
  have conv: "\<exists>a. ConvertPipelineActivity exampleEnv pa = Inr a"
    "\<exists>a. ConvertPipelineActivity quietEnv pa = Inr a" for pa
    by (simp_all add: ConvertPipelineActivity_def example_defs)
  have p: "Labels pendingJob = Some [''app'' \<mapsto> ''lighthouse'']" "updateErr exampleEnv = None"
    "statusUpdateErr exampleEnv = None"
    "jobs (emit ev (pendingWorld acts)) (jobKey pendingJob) = Some pendingJob" for ev acts
    by (simp_all add: example_defs jobKey_def)
  have q: "Labels reportedJob = Some [''app'' \<mapsto> ''lighthouse'']" "updateErr quietEnv = None"
    "statusUpdateErr quietEnv = None"
    "jobs (emit ev reportedWorld) (jobKey reportedJob) = Some reportedJob" for ev
    by (simp_all add: example_defs jobKey_def)
  show "fst (ReconcileWith t exampleReconciler exampleEnv exampleReq (pendingWorld [exampleActivity])) = Inr ()"
    using conv(1) [of exampleActivity] mirror_written(1) [OF p(1,2,3,4)]
    by (auto simp add: reconcile_mirror [OF example_pending_one])
  show "fst (ReconcileWith t exampleReconciler exampleEnv exampleReq (pendingWorld [contextActivity])) = Inr ()"
    using conv(1) [of contextActivity] mirror_written(1) [OF p(1,2,3,4)]
    by (auto simp add: reconcile_mirror [OF example_pending_context])
  show "fst (ReconcileWith t exampleReconciler quietEnv exampleReq reportedWorld) = Inr ()"
    using conv(2) [of exampleActivity] mirror_written(1) [OF q(1,2,3,4)]
    by (auto simp add: reconcile_mirror [OF example_quiet])
qed

subsection \<open>More than one activity\<close>

text \<open>
  Claim C5. A reconciliation that loads a job and finds more than one correlated activity
  returns the nil error, leaves the stored jobs and the activities as they were, adds
  nothing but its two log lines to the trace, and so calls neither create nor apply.
\<close>

theorem anomaly_only_logged:
  assumes "reconciles e req w job items" and "1 < length items"
  shows "fst (Reconcile r e req w) = Inr ()
         \<and> jobs (snd (Reconcile r e req w)) = jobs w
         \<and> activities (snd (Reconcile r e req w)) = activities w
         \<and> trace (snd (Reconcile r e req w)) =
             trace w @ [Log ''Reconcile LighthouseJob'',
                        Log ''A lighthouse job should never have more than 1 pipeline activity'']
         \<and> createCalls (trace (snd (Reconcile r e req w))) = createCalls (trace w)
         \<and> applyCalls (trace (snd (Reconcile r e req w))) = applyCalls (trace w)"
  using reconcile_many [OF assms] by (simp add: Reconcile_def)

theorem anomaly_only_logged_witness:
  "reconciles exampleEnv exampleReq (pendingWorld [exampleActivity, secondActivity]) pendingJob
     [exampleActivity, secondActivity]
   \<and> 1 < length [exampleActivity, secondActivity]
   \<and> pa_Name exampleActivity \<noteq> pa_Name secondActivity
   \<and> fst (Reconcile exampleReconciler exampleEnv exampleReq
             (pendingWorld [exampleActivity, secondActivity])) = Inr ()
   \<and> storedStatus (snd (Reconcile exampleReconciler exampleEnv exampleReq
             (pendingWorld [exampleActivity, secondActivity]))) exampleReq
       = Some (pendingStatus exampleEnv exampleKey)"
proof -
  have len: "1 < length [exampleActivity, secondActivity]" by simp
  have names: "pa_Name exampleActivity \<noteq> pa_Name secondActivity"
    by (simp add: example_defs)
  from anomaly_only_logged [OF example_pending_two len, of exampleReconciler]
  show ?thesis
    using example_pending_two names
    by (simp add: storedStatus_def pendingWorld_def worldOf_def pendingJob_def)
qed

subsection \<open>The build label and the nil map\<close>

text \<open>
  Claim C10. In the branch of exactly one activity the build identifier is assigned into
  the labels of the job with no allocation before it: when the job was created with no
  labels (the nil map) the reconciliation panics on that assignment and writes nothing, and
  when the job has a map of labels the reconciliation does not panic.
\<close>

theorem nil_labels_panic:
  assumes "reconciles e req w job [pa]" and "Reconcile r e req w = (res, w')"
  shows "(Labels job = None \<longrightarrow>
            res = Inl (Panic ''assignment to entry in nil map'') \<and> jobs w' = jobs w)
         \<and> (Labels job \<noteq> None \<longrightarrow> (\<forall>msg. res \<noteq> Inl (Panic msg)))"
proof -
  have run: "mirrorActivity defaultTargetURLTemplate r e job pa (emit (Log ''Reconcile LighthouseJob'') w) = (res, w')"
    using assms(2) reconcile_mirror [OF assms(1)] by (simp add: Reconcile_def)
  show ?thesis
  proof (cases "Labels job")
    case None
    with run mirror_panics [OF None] show ?thesis by auto
  next
    case (Some m)
    with run show ?thesis
      by (auto simp add: mirrorActivity_def setLabel_def Let_def
          split: sum.splits prod.splits option.splits)
  qed
qed

theorem nil_labels_panic_witness:
  "reconciles exampleEnv exampleReq unlabelledWorld unlabelledJob [exampleActivity]
   \<and> Labels unlabelledJob = None
   \<and> fst (Reconcile exampleReconciler exampleEnv exampleReq unlabelledWorld)
       = Inl (Panic ''assignment to entry in nil map'')
   \<and> reconciles exampleEnv exampleReq (pendingWorld [exampleActivity]) pendingJob [exampleActivity]
   \<and> Labels pendingJob = Some [''app'' \<mapsto> ''lighthouse'']
   \<and> fst (Reconcile exampleReconciler exampleEnv exampleReq (pendingWorld [exampleActivity]))
       \<noteq> Inl (Panic ''assignment to entry in nil map'')"
proof -
  have a: "Labels unlabelledJob = None" by (simp add: unlabelledJob_def)
  have b: "Labels pendingJob = Some [''app'' \<mapsto> ''lighthouse'']"
    by (simp add: pendingJob_def exampleJob_def)
  from nil_labels_panic [OF example_unlabelled, of exampleReconciler
      "fst (Reconcile exampleReconciler exampleEnv exampleReq unlabelledWorld)"
      "snd (Reconcile exampleReconciler exampleEnv exampleReq unlabelledWorld)"]
    nil_labels_panic [OF example_pending_one, of exampleReconciler
      "fst (Reconcile exampleReconciler exampleEnv exampleReq (pendingWorld [exampleActivity]))"
      "snd (Reconcile exampleReconciler exampleEnv exampleReq (pendingWorld [exampleActivity]))"]
  show ?thesis using a b example_unlabelled example_pending_one by simp
qed

subsection \<open>The trigger\<close>

text \<open>
  Claim C6. When a triggered job with no correlated activity is reconciled, the calls to
  the engine's create that the reconciliation adds are the one call with the parameters
  that the trigger builds for the job (none when the trigger panics before the call), and
  the run kind of these parameters is the pull-request kind when the job lists at least one
  pull request and the release kind when it lists none.
\<close>

theorem run_kind_by_pull_requests:
  assumes "reconciles e req w job []" and "State (Status job) = TriggeredState"
    and "Reconcile r e req w = (res, w')"
  shows "createCalls (trace w') =
           createCalls (trace w)
             @ (case triggerParam e (Spec job) of None \<Rightarrow> [] | Some param \<Rightarrow> [param])
         \<and> (\<forall>refs param. Refs (Spec job) = Some refs \<longrightarrow> triggerParam e (Spec job) = Some param
               \<longrightarrow> (1 \<le> length (Pulls refs) \<longrightarrow> PipelineKind param = PullRequestPipeline)
                   \<and> (Pulls refs = [] \<longrightarrow> PipelineKind param = ReleasePipeline))"
proof -
  have "w' = snd (triggerPipeline r e job (emit (Log ''Reconcile LighthouseJob'') w))"
    using assms(3) reconcile_trigger [OF assms(1,2)] by (simp add: Reconcile_def)
  then have calls: "createCalls (trace w') =
      createCalls (trace w)
        @ (case triggerParam e (Spec job) of None \<Rightarrow> [] | Some param \<Rightarrow> [param])"
    by (simp add: trigger_createCalls)
  have kind: "(1 \<le> length (Pulls refs) \<longrightarrow> PipelineKind param = PullRequestPipeline)
      \<and> (Pulls refs = [] \<longrightarrow> PipelineKind param = ReleasePipeline)"
    if "Refs (Spec job) = Some refs" and "triggerParam e (Spec job) = Some param" for refs param
    using triggerParam_built [OF that]
    by (auto simp add: pipelineCreateParam_def triggerKind_def split: option.splits)
  show ?thesis using calls kind by blast
qed

theorem run_kind_by_pull_requests_witness:
  "reconciles exampleEnv exampleReq exampleWorld exampleJob []
   \<and> State (Status exampleJob) = TriggeredState
   \<and> map_option Pulls (Refs (Spec exampleJob)) = Some []
   \<and> map PipelineKind (createCalls (trace (snd (Reconcile exampleReconciler exampleEnv exampleReq exampleWorld))))
       = [ReleasePipeline]
   \<and> reconciles exampleEnv exampleReq (worldOf pullRequestJob []) pullRequestJob []
   \<and> State (Status pullRequestJob) = TriggeredState
   \<and> map_option Pulls (Refs (Spec pullRequestJob)) = Some [\<lparr>Number = 5, SHA = ''abc''\<rparr>]
   \<and> map PipelineKind (createCalls (trace (snd (Reconcile exampleReconciler exampleEnv exampleReq
         (worldOf pullRequestJob [])))))
       = [PullRequestPipeline]"
proof -
  have a: "State (Status exampleJob) = TriggeredState"
    "map_option Pulls (Refs (Spec exampleJob)) = Some []"
    by (simp_all add: example_defs)
  have b: "State (Status pullRequestJob) = TriggeredState"
    "map_option Pulls (Refs (Spec pullRequestJob)) = Some [\<lparr>Number = 5, SHA = ''abc''\<rparr>]"
    by (simp_all add: example_defs)
  have t: "trace exampleWorld = []" "trace (worldOf pullRequestJob []) = []"
    by (simp_all add: exampleWorld_def worldOf_def)
  obtain param where p: "triggerParam exampleEnv (Spec pullRequestJob) = Some param"
    and k: "PipelineKind param = PullRequestPipeline"
    using example_params(4) by auto
  from run_kind_by_pull_requests [OF example_triggered a(1), of exampleReconciler
      "fst (Reconcile exampleReconciler exampleEnv exampleReq exampleWorld)"
      "snd (Reconcile exampleReconciler exampleEnv exampleReq exampleWorld)"]
    run_kind_by_pull_requests [OF example_pull_request b(1), of exampleReconciler
      "fst (Reconcile exampleReconciler exampleEnv exampleReq (worldOf pullRequestJob []))"
      "snd (Reconcile exampleReconciler exampleEnv exampleReq (worldOf pullRequestJob []))"]
  show ?thesis
    using a b t p k example_triggered example_pull_request by (simp add: example_params(1))
qed

text \<open>
  Claim C4. Let the trigger of a job call the engine's create, and let the create succeed
  with an activity key. When the cluster accepts the status write, the trace of the
  reconciliation is create, then the status write that submits the state Pending, the
  activity name made from the key and the start time, then apply; and the stored job
  carries this status whatever apply returns: a failed apply gives the wrapped error and
  the status stays. When the cluster refuses the status write, apply is not called.
\<close>

theorem status_persisted_before_apply:
  assumes "reconciles e req w job []" and "State (Status job) = TriggeredState"
    and "Refs (Spec job) = Some refs" and "triggerParam e (Spec job) = Some param"
    and "mpClient_Create r param = Inr (key, crds)"
    and "Reconcile r e req w = (res, w')"
  shows "(statusUpdateErr e = None \<longrightarrow>
            trace w' = trace w @
              [Log ''Reconcile LighthouseJob'',
               triggerLogLine e (Spec job) refs,
               CallCreate param,
               CallStatusUpdate
                 (job\<lparr>Status := \<lparr>State = PendingState,
                                 ActivityName = ToValidName e (Key_Name key),
                                 StartTime = Some (Now e), ReportURL = '''', Activity = None\<rparr>\<rparr>),
               CallApply key crds]
            \<and> storedStatus w' req =
                Some \<lparr>State = PendingState, ActivityName = ToValidName e (Key_Name key),
                      StartTime = Some (Now e), ReportURL = '''', Activity = None\<rparr>
            \<and> (\<forall>err. mpClient_Apply r key crds = Some err
                  \<longrightarrow> res = Inl (Returned (Wrap err ''unable to apply Tekton CRDs'')))
            \<and> (mpClient_Apply r key crds = None \<longrightarrow> res = Inr ()))
         \<and> (\<forall>err. statusUpdateErr e = Some err \<longrightarrow>
               applyCalls (trace w') = applyCalls (trace w) \<and> res = Inl (Returned err)
               \<and> jobs w' = jobs w)"
proof -
  let ?w0 = "emit (Log ''Reconcile LighthouseJob'') w"
  have run: "triggerPipeline r e job ?w0 = (res, w')"
    using assms(6) reconcile_trigger [OF assms(1,2)] by (simp add: Reconcile_def)
  have stored: "jobs ?w0 (jobKey job) = Some job" and key: "jobKey job = req"
    using assms(1) by (simp_all add: reconciles_def)
  have res: "res = fst (triggerPipeline r e job ?w0)" and w': "w' = snd (triggerPipeline r e job ?w0)"
    using run by simp_all
  have ok: ?thesis if "statusUpdateErr e = None"
    using trigger_written [OF assms(3,4,5) that stored] that key
    by (auto simp add: res w' storedStatus_def pendingStatus_def)
  have refused: ?thesis if "statusUpdateErr e = Some err" for err
    using trigger_write_refused [OF assms(3,4,5) that, of ?w0] that
    by (auto simp add: res w' triggerLogLine_def)
  show ?thesis
    using ok refused by (cases "statusUpdateErr e") auto
qed

theorem status_persisted_before_apply_witness:
  "reconciles exampleEnv exampleReq exampleWorld exampleJob []
   \<and> State (Status exampleJob) = TriggeredState
   \<and> Refs (Spec exampleJob) = Some exampleRefs
   \<and> mpClient_Create failingApply (the (triggerParam exampleEnv (Spec exampleJob)))
       = Inr (exampleKey, CRDWrapper ''run'')
   \<and> statusUpdateErr exampleEnv = None
   \<and> mpClient_Apply failingApply exampleKey (CRDWrapper ''run'') = Some (EngineError ''no'')
   \<and> fst (Reconcile failingApply exampleEnv exampleReq exampleWorld)
       = Inl (Returned (Wrap (EngineError ''no'') ''unable to apply Tekton CRDs''))
   \<and> storedStatus (snd (Reconcile failingApply exampleEnv exampleReq exampleWorld)) exampleReq
       = Some \<lparr>State = PendingState, ActivityName = ''acme-widgets-main-3'',
               StartTime = Some 1600000000, ReportURL = '''', Activity = None\<rparr>
   \<and> applyCalls (trace (snd (Reconcile failingApply exampleEnv exampleReq exampleWorld)))
       = [(exampleKey, CRDWrapper ''run'')]
   \<and> map (\<lambda>j. (State (Status j), ActivityName (Status j)))
        (statusWrites (trace (snd (Reconcile failingApply exampleEnv exampleReq exampleWorld))))
       = [(PendingState, ''acme-widgets-main-3'')]"
proof -
  obtain param where p: "triggerParam exampleEnv (Spec exampleJob) = Some param"
    using example_params(1) by simp
  have a: "State (Status exampleJob) = TriggeredState"
    "Refs (Spec exampleJob) = Some exampleRefs"
    "mpClient_Create failingApply param = Inr (exampleKey, CRDWrapper ''run'')"
    "statusUpdateErr exampleEnv = None"
    "mpClient_Apply failingApply exampleKey (CRDWrapper ''run'') = Some (EngineError ''no'')"
    "ToValidName exampleEnv (Key_Name exampleKey) = ''acme-widgets-main-3''"
    "Now exampleEnv = 1600000000" "trace exampleWorld = []"
    by (simp_all add: example_defs)
  from status_persisted_before_apply [OF example_triggered a(1,2) p a(3), of
      "fst (Reconcile failingApply exampleEnv exampleReq exampleWorld)"
      "snd (Reconcile failingApply exampleEnv exampleReq exampleWorld)"]
  show ?thesis using a p example_triggered by (simp add: triggerLogLine_def)
qed

text \<open>
  Claim C1, amended. Take a triggered job with no correlated activity. When the trigger
  can build the parameters of the run (the references of the job are not nil and
  \<^verbatim>\<open>GetEnvVars\<close> does not panic), the reconciliation calls the engine's create exactly
  once. Given that the cluster accepts the status write, the stored job is pending exactly
  when create succeeds, and it then carries the valid name made from the name of the
  returned activity key (whatever that name is; nothing makes it non-empty) and the time of
  the reconciliation. A failed create returns the wrapped error and changes no job; a
  refused status write returns its error and changes no job. When the trigger cannot build
  the parameters, the reconciliation panics, calls no create and changes no job. Once the
  stored job is pending, no later reconciliation of the request calls create again,
  whatever the activities and the environments of these reconciliations are.
\<close>

theorem trigger_exactly_once:
  assumes "reconciles e req w job []" and "State (Status job) = TriggeredState"
    and "Reconcile r e req w = (res, w')"
  shows "(\<forall>param. triggerParam e (Spec job) = Some param \<longrightarrow>
            createCalls (trace w') = createCalls (trace w) @ [param]
            \<and> (statusUpdateErr e = None \<longrightarrow>
                 ((\<exists>key crds. mpClient_Create r param = Inr (key, crds))
                   \<longleftrightarrow> (\<exists>st. storedStatus w' req = Some st \<and> State st = PendingState))
                 \<and> (\<forall>key crds. mpClient_Create r param = Inr (key, crds)
                       \<longrightarrow> storedStatus w' req =
                             Some \<lparr>State = PendingState, ActivityName = ToValidName e (Key_Name key),
                                   StartTime = Some (Now e), ReportURL = '''', Activity = None\<rparr>))
            \<and> (\<forall>err. mpClient_Create r param = Inl err
                  \<longrightarrow> res = Inl (Returned (Wrap err ''unable to create Tekton CRDs''))
                      \<and> jobs w' = jobs w)
            \<and> (\<forall>key crds err. mpClient_Create r param = Inr (key, crds)
                  \<longrightarrow> statusUpdateErr e = Some err
                  \<longrightarrow> res = Inl (Returned err) \<and> jobs w' = jobs w))
         \<and> (triggerParam e (Spec job) = None \<longleftrightarrow>
               Refs (Spec job) = None \<or> GetEnvVars e (Spec job) = None)
         \<and> (triggerParam e (Spec job) = None \<longrightarrow>
               (\<exists>msg. res = Inl (Panic msg))
               \<and> createCalls (trace w') = createCalls (trace w) \<and> jobs w' = jobs w)
         \<and> ((\<exists>st. storedStatus w' req = Some st \<and> State st = PendingState)
               \<longrightarrow> (\<forall>steps. createCalls (trace (reconcileAll r steps req w')) = createCalls (trace w')))"
proof -
  let ?w0 = "emit (Log ''Reconcile LighthouseJob'') w"
  have run: "triggerPipeline r e job ?w0 = (res, w')"
    using assms(3) reconcile_trigger [OF assms(1,2)] by (simp add: Reconcile_def)
  have stored: "jobs ?w0 (jobKey job) = Some job" and key: "jobKey job = req"
    and before: "jobs w req = Some job"
    using assms(1) by (simp_all add: reconciles_def)
  have res: "res = fst (triggerPipeline r e job ?w0)" and w': "w' = snd (triggerPipeline r e job ?w0)"
    using run by simp_all
  have built: "createCalls (trace w') = createCalls (trace w) @ [param]
      \<and> (statusUpdateErr e = None \<longrightarrow>
           ((\<exists>key crds. mpClient_Create r param = Inr (key, crds))
             \<longleftrightarrow> (\<exists>st. storedStatus w' req = Some st \<and> State st = PendingState))
           \<and> (\<forall>key crds. mpClient_Create r param = Inr (key, crds)
                 \<longrightarrow> storedStatus w' req = Some (pendingStatus e key)))
      \<and> (\<forall>err. mpClient_Create r param = Inl err
            \<longrightarrow> res = Inl (Returned (Wrap err ''unable to create Tekton CRDs''))
                \<and> jobs w' = jobs w)
      \<and> (\<forall>key crds err. mpClient_Create r param = Inr (key, crds)
            \<longrightarrow> statusUpdateErr e = Some err
            \<longrightarrow> res = Inl (Returned err) \<and> jobs w' = jobs w)"
    if p: "triggerParam e (Spec job) = Some param" for param
  proof -
    obtain refs where refs: "Refs (Spec job) = Some refs"
      using p by (rule triggerParam_Some)
    have once: "createCalls (trace w') = createCalls (trace w) @ [param]"
      by (simp add: w' trigger_createCalls p)
    have failed: "res = Inl (Returned (Wrap err ''unable to create Tekton CRDs'')) \<and> jobs w' = jobs w"
      if "mpClient_Create r param = Inl err" for err
      using trigger_create_fails [OF refs p that, of ?w0] by (simp add: res w')
    have written: "storedStatus w' req = Some (pendingStatus e key)"
      if "mpClient_Create r param = Inr (key, crds)" and "statusUpdateErr e = None" for key crds
      using trigger_written(2) [OF refs p that stored] key by (simp add: w' storedStatus_def)
    have refused: "res = Inl (Returned err) \<and> jobs w' = jobs w"
      if "mpClient_Create r param = Inr (key, crds)" and "statusUpdateErr e = Some err"
      for key crds err
      using trigger_write_refused [OF refs p that, of ?w0] by (simp add: res w')
    have iff: "(\<exists>key crds. mpClient_Create r param = Inr (key, crds))
                 \<longleftrightarrow> (\<exists>st. storedStatus w' req = Some st \<and> State st = PendingState)"
      if ok: "statusUpdateErr e = None"
    proof (cases "mpClient_Create r param")
      case (Inl err)
      with failed [OF Inl] before assms(2) show ?thesis by (auto simp add: storedStatus_def)
    next
      case (Inr kc)
      obtain key crds where kc: "kc = (key, crds)" by (cases kc)
      from written [OF Inr [unfolded kc] ok] Inr kc show ?thesis
        by (auto simp add: pendingStatus_def)
    qed
    show ?thesis using once failed written refused iff by blast
  qed
  have panics: "(\<exists>msg. res = Inl (Panic msg))
      \<and> createCalls (trace w') = createCalls (trace w) \<and> jobs w' = jobs w"
    if "triggerParam e (Spec job) = None"
    using trigger_panics(1,2,3) [OF that, of r ?w0] by (simp add: res w')
  have again: "createCalls (trace (reconcileAll r steps req w')) = createCalls (trace w')"
    if "\<exists>st. storedStatus w' req = Some st \<and> State st = PendingState" for steps
  proof -
    from that have "untriggered w' req"
      by (auto simp add: storedStatus_def untriggered_def)
    then show ?thesis by (rule reconcileAll_no_create)
  qed
  show ?thesis
    using built panics again triggerParam_None [of e "Spec job"]
    by (simp add: pendingStatus_def)
qed

theorem trigger_exactly_once_witness:
  "reconciles exampleEnv exampleReq exampleWorld exampleJob []
   \<and> State (Status exampleJob) = TriggeredState
   \<and> statusUpdateErr exampleEnv = None
   \<and> triggerParam exampleEnv (Spec exampleJob) \<noteq> None
   \<and> mpClient_Create exampleReconciler (the (triggerParam exampleEnv (Spec exampleJob)))
       = Inr (exampleKey, CRDWrapper ''run'')
   \<and> length (createCalls (trace (snd (Reconcile exampleReconciler exampleEnv exampleReq exampleWorld)))) = 1
   \<and> storedStatus (snd (Reconcile exampleReconciler exampleEnv exampleReq exampleWorld)) exampleReq
       = Some \<lparr>State = PendingState, ActivityName = ''acme-widgets-main-3'',
               StartTime = Some 1600000000, ReportURL = '''', Activity = None\<rparr>
   \<and> length (createCalls (trace (reconcileAll exampleReconciler
         [(exampleEnv, []), (exampleEnv, [exampleActivity])] exampleReq
         (snd (Reconcile exampleReconciler exampleEnv exampleReq exampleWorld))))) = 1
   \<and> mpClient_Create failingCreate (the (triggerParam exampleEnv (Spec exampleJob)))
       = Inl (EngineError ''no'')
   \<and> length (createCalls (trace (snd (Reconcile failingCreate exampleEnv exampleReq exampleWorld)))) = 1
   \<and> fst (Reconcile failingCreate exampleEnv exampleReq exampleWorld)
       = Inl (Returned (Wrap (EngineError ''no'') ''unable to create Tekton CRDs''))
   \<and> storedStatus (snd (Reconcile failingCreate exampleEnv exampleReq exampleWorld)) exampleReq
       = Some triggered"
proof -
  obtain param where p: "triggerParam exampleEnv (Spec exampleJob) = Some param"
    using example_params(1) by simp
  have a: "State (Status exampleJob) = TriggeredState" "statusUpdateErr exampleEnv = None"
    "mpClient_Create exampleReconciler param = Inr (exampleKey, CRDWrapper ''run'')"
    "trace exampleWorld = []"
    "ToValidName exampleEnv (Key_Name exampleKey) = ''acme-widgets-main-3''"
    "Now exampleEnv = 1600000000"
    "mpClient_Create failingCreate param = Inl (EngineError ''no'')"
    "storedStatus exampleWorld exampleReq = Some triggered"
    by (simp_all add: example_defs storedStatus_def)
  from trigger_exactly_once [OF example_triggered a(1), of exampleReconciler
      "fst (Reconcile exampleReconciler exampleEnv exampleReq exampleWorld)"
      "snd (Reconcile exampleReconciler exampleEnv exampleReq exampleWorld)"]
    trigger_exactly_once [OF example_triggered a(1), of failingCreate
      "fst (Reconcile failingCreate exampleEnv exampleReq exampleWorld)"
      "snd (Reconcile failingCreate exampleEnv exampleReq exampleWorld)"]
  show ?thesis using a p example_triggered
    by (simp add: storedStatus_def del: reconcileAll.simps)
qed

text \<open>
  The claim as it was stated has the create called for every triggered job, and the
  activity name non-empty. A job whose references are nil panics at the first read of them,
  a job with no type and no pull request panics when its variables are built, both before
  the create is called; and an engine whose create succeeds with a key of the empty name
  leaves the job pending with the empty activity name.
\<close>

theorem trigger_counterexample:
  "State (Status nilRefsJob) = TriggeredState
   \<and> fst (Reconcile exampleReconciler exampleEnv exampleReq (worldOf nilRefsJob []))
       = Inl (Panic ''invalid memory address or nil pointer dereference'')
   \<and> createCalls (trace (snd (Reconcile exampleReconciler exampleEnv exampleReq
        (worldOf nilRefsJob [])))) = []
   \<and> State (Status untypedJob) = TriggeredState
   \<and> fst (Reconcile exampleReconciler exampleEnv exampleReq (worldOf untypedJob []))
       = Inl (Panic ''index out of range'')
   \<and> createCalls (trace (snd (Reconcile exampleReconciler exampleEnv exampleReq
        (worldOf untypedJob [])))) = []
   \<and> mpClient_Create namelessCreate (the (triggerParam exampleEnv (Spec exampleJob)))
       = Inr (\<lparr>Key_Name = ''''\<rparr>, CRDWrapper ''run'')
   \<and> fst (Reconcile namelessCreate exampleEnv exampleReq exampleWorld) = Inr ()
   \<and> storedStatus (snd (Reconcile namelessCreate exampleEnv exampleReq exampleWorld)) exampleReq
       = Some \<lparr>State = PendingState, ActivityName = '''', StartTime = Some 1600000000,
               ReportURL = '''', Activity = None\<rparr>"
proof -
  let ?log = "Log ''Reconcile LighthouseJob''"
  have st: "State (Status nilRefsJob) = TriggeredState" "State (Status untypedJob) = TriggeredState"
    "State (Status exampleJob) = TriggeredState"
    by (simp_all add: example_defs)
  have nil: "Reconcile exampleReconciler exampleEnv exampleReq (worldOf nilRefsJob []) =
      (Inl (Panic nilPointer), emit ?log (worldOf nilRefsJob []))"
    using reconcile_trigger [OF example_nil_refs st(1)] trigger_nil_refs [of nilRefsJob]
    by (simp add: Reconcile_def example_defs)
  have untyped: "Reconcile exampleReconciler exampleEnv exampleReq (worldOf untypedJob []) =
      (Inl (Panic ''index out of range''),
       emit (triggerLogLine exampleEnv (Spec untypedJob) exampleRefs) (emit ?log (worldOf untypedJob [])))"
  proof -
    have "Refs (Spec untypedJob) = Some exampleRefs" "GetEnvVars exampleEnv (Spec untypedJob) = None"
      by (simp_all add: exampleGetEnvVars_def example_defs)
    from trigger_no_env_vars [OF this] reconcile_trigger [OF example_untyped st(2)]
    show ?thesis by (simp add: Reconcile_def)
  qed
  obtain param where p: "triggerParam exampleEnv (Spec exampleJob) = Some param"
    using example_params(1) by simp
  let ?w0 = "emit ?log exampleWorld"
  have a: "Refs (Spec exampleJob) = Some exampleRefs" "statusUpdateErr exampleEnv = None"
    "mpClient_Create namelessCreate param = Inr (\<lparr>Key_Name = ''''\<rparr>, CRDWrapper ''run'')"
    "jobs ?w0 (jobKey exampleJob) = Some exampleJob"
    "jobKey exampleJob = exampleReq"
    "mpClient_Apply namelessCreate \<lparr>Key_Name = ''''\<rparr> (CRDWrapper ''run'') = None"
    "ToValidName exampleEnv '''' = ''''" "Now exampleEnv = 1600000000"
    by (simp_all add: example_defs jobKey_def)
  have run: "Reconcile namelessCreate exampleEnv exampleReq exampleWorld =
               triggerPipeline namelessCreate exampleEnv exampleJob ?w0"
    using reconcile_trigger [OF example_triggered st(3)] by (simp add: Reconcile_def)
  have nameless: "fst (Reconcile namelessCreate exampleEnv exampleReq exampleWorld) = Inr ()
     \<and> storedStatus (snd (Reconcile namelessCreate exampleEnv exampleReq exampleWorld)) exampleReq
       = Some \<lparr>State = PendingState, ActivityName = '''', StartTime = Some 1600000000,
               ReportURL = '''', Activity = None\<rparr>"
    using trigger_written [OF a(1) p a(3) a(2) a(4)] a
    by (simp add: run storedStatus_def pendingStatus_def)
  show ?thesis
    using st nil untyped nameless a(3) p
    by (simp add: nilPointer_def triggerLogLine_def worldOf_def)
qed

subsection \<open>The status that the mirror submits and the status that is stored\<close>

lemma mirror_failed_status:
  assumes "jobs w (jobKey job) = Some job" and "fst (mirrorActivity t r e job pa w) \<noteq> Inr ()"
  shows "map_option Status (jobs (snd (mirrorActivity t r e job pa w)) (jobKey job)) = Some (Status job)"
proof (cases "Labels job")
  case None
  then show ?thesis using assms(1) by (simp add: mirror_panics)
next
  case (Some m)
  show ?thesis
  proof (cases "updateErr e")
    case (Some err)
    then show ?thesis using assms(1) mirror_update_refused(2) [OF \<open>Labels job = Some m\<close> Some]
      by simp
  next
    case None
    show ?thesis
    proof (cases "ConvertPipelineActivity e pa")
      case (Inl err)
      then show ?thesis
        using mirror_convert_fails(2) [OF \<open>Labels job = Some m\<close> None Inl assms(1)] by simp
    next
      case (Inr a)
      show ?thesis
      proof (cases "statusUpdateErr e")
        case (Some err)
        then show ?thesis
          using mirror_write_refused(2) [OF \<open>Labels job = Some m\<close> None Some assms(1) Inr] by simp
      next
        case none: None
        from mirror_written(1) [OF \<open>Labels job = Some m\<close> None none assms(1) Inr] assms(2)
        show ?thesis by simp
      qed
    qed
  qed
qed

lemma mirror_submits:
  assumes "Labels job = Some m" and "updateErr e = None" and "ConvertPipelineActivity e pa = Inr a"
    and "jobs w (jobKey job) = Some job"
  shows "statusWrites (trace (snd (mirrorActivity t r e job pa w))) =
           statusWrites (trace w) @
             [job\<lparr>Labels := Some (m(BuildNumLabel e \<mapsto> pa_Build pa)),
                  Status := (Status job)\<lparr>ReportURL :=
                     (if getReportURLBase e \<noteq> [] \<and> webURL (snd (createReportTargetURL e t (reportParams r e a)))
                      then snd (createReportTargetURL e t (reportParams r e a))
                      else ReportURL (Status job)),
                    Activity := Some a\<rparr>\<rparr>]"
proof -
  let ?job1 = "job\<lparr>Labels := Some (m(BuildNumLabel e \<mapsto> pa_Build pa))\<rparr>"
  obtain ws job2 where a: "assignReportURL t r e a ?job1 = (ws, job2)"
    by (cases "assignReportURL t r e a ?job1")
  have j2: "job2 = snd (assignReportURL t r e a ?job1)"
    using a by simp
  have ws: "statusWrites ws = []"
    using a by (rule assignReportURL_warnings_eq)
  show ?thesis
    using assms a ws
    by (simp add: mirrorActivity_def setLabel_def clientUpdate_def clientStatusUpdate_def
        jobKey_def Let_def j2 assignReportURL_job split: option.splits)
qed

lemma mirror_submits_nothing:
  assumes "Labels job = None \<or> updateErr e \<noteq> None \<or> (\<exists>err. ConvertPipelineActivity e pa = Inl err)"
  shows "statusWrites (trace (snd (mirrorActivity t r e job pa w))) = statusWrites (trace w)"
  using assms
  by (auto simp add: mirrorActivity_def setLabel_def clientUpdate_def Let_def
      split: option.splits)

lemma reportURL_cases:
  assumes "u = (if base \<noteq> [] \<and> webURL (snd (createReportTargetURL e t p))
                then snd (createReportTargetURL e t p) else prev)"
  shows "(case renderReportURL e t p of
            Inl f \<Rightarrow> u = prev
          | Inr url \<Rightarrow> u = (if base \<noteq> [] \<and> webURL url then url else prev))"
  using assms by (simp add: createReportTargetURL_render split: sum.splits)

lemma convert_fields:
  assumes "ConvertPipelineActivity e pa = Inr a"
  shows "ar_Owner a = pa_GitOwner pa" and "ar_Repo a = pa_GitRepository pa"
    and "ar_Branch a = pa_GitBranch pa" and "ar_BuildIdentifier a = pa_Build pa"
    and "ar_Context a = (if pa_Context pa = [] then ''jenkins-x'' else pa_Context pa)"
  using assms by (auto simp add: ConvertPipelineActivity_def split: option.splits)

subsection \<open>The snapshot and the label\<close>




subsection \<open>The report URL\<close>

text \<open>
  Claim C3, amended. Let a reconciliation load a job with exactly one correlated activity,
  with any text as the template. Every status write of the reconciliation submits a status
  with a snapshot, and with the report URL that the parameters of this snapshot give: the
  rendered text when the configured base is not empty, the rendering succeeds and the text
  starts with \<^verbatim>\<open>http://\<close> or \<^verbatim>\<open>https://\<close>, and the report URL that the job had in
  every other case. When the reconciliation returns the nil error, there is one such write
  and the stored status is the submitted one. When it returns anything else (it panics on
  the nil map of labels, or a write is refused, or the conversion of the activity fails),
  the stored report URL is the one that the job had.
\<close>

theorem report_url_assigned_iff:
  assumes "reconciles e req w job [pa]" and "ReconcileWith t r e req w = (res, w')"
  shows "\<exists>ws. statusWrites (trace w') = statusWrites (trace w) @ ws
           \<and> (\<forall>job' \<in> set ws. \<exists>a. Activity (Status job') = Some a
                 \<and> (case renderReportURL e t (reportParams r e a) of
                      Inl f \<Rightarrow> ReportURL (Status job') = ReportURL (Status job)
                    | Inr url \<Rightarrow>
                        ReportURL (Status job') =
                          (if getReportURLBase e \<noteq> '''' \<and> webURL url then url
                           else ReportURL (Status job))))
           \<and> (res = Inr () \<longrightarrow> (\<exists>job'. ws = [job'] \<and> storedStatus w' req = Some (Status job')))
           \<and> (res \<noteq> Inr () \<longrightarrow>
                 (\<exists>st. storedStatus w' req = Some st \<and> ReportURL st = ReportURL (Status job)))"
proof -
  let ?w0 = "emit (Log ''Reconcile LighthouseJob'') w"
  have run: "mirrorActivity t r e job pa ?w0 = (res, w')"
    using assms(2) reconcile_mirror [OF assms(1)] by simp
  have stored: "jobs ?w0 (jobKey job) = Some job" and key: "jobKey job = req"
    using assms(1) by (simp_all add: reconciles_def)
  have res: "res = fst (mirrorActivity t r e job pa ?w0)"
    and w': "w' = snd (mirrorActivity t r e job pa ?w0)"
    using run by simp_all
  have failed: "\<exists>st. storedStatus w' req = Some st \<and> ReportURL st = ReportURL (Status job)"
    if "res \<noteq> Inr ()"
    using mirror_failed_status [OF stored, of t r e pa] that key
    by (auto simp add: res w' storedStatus_def)
  show ?thesis
  proof (cases "Labels job = None \<or> updateErr e \<noteq> None \<or> (\<exists>err. ConvertPipelineActivity e pa = Inl err)")
    case True
    have none: "statusWrites (trace w') = statusWrites (trace w) @ []"
      using mirror_submits_nothing [OF True, of t r ?w0] by (simp add: w')
    have "res \<noteq> Inr ()"
      using True res by (metis mirror_succeeds option.distinct(1) sum.distinct(1))
    with none failed show ?thesis by auto
  next
    case False
    then obtain m a where m: "Labels job = Some m" and u: "updateErr e = None"
      and c: "ConvertPipelineActivity e pa = Inr a"
      by (cases "ConvertPipelineActivity e pa") auto
    define u' where "u' = (if getReportURLBase e \<noteq> [] \<and> webURL (snd (createReportTargetURL e t (reportParams r e a)))
                      then snd (createReportTargetURL e t (reportParams r e a))
                      else ReportURL (Status job))"
    define job' where "job' = job\<lparr>Labels := Some (m(BuildNumLabel e \<mapsto> pa_Build pa)),
                  Status := (Status job)\<lparr>ReportURL := u', Activity := Some a\<rparr>\<rparr>"
    have one: "statusWrites (trace w') = statusWrites (trace w) @ [job']"
      using mirror_submits [OF m u c stored, of t r] by (simp add: w' job'_def u'_def)
    have url: "case renderReportURL e t (reportParams r e a) of
                 Inl f \<Rightarrow> ReportURL (Status job') = ReportURL (Status job)
               | Inr url \<Rightarrow>
                   ReportURL (Status job') =
                     (if getReportURLBase e \<noteq> '''' \<and> webURL url then url else ReportURL (Status job))"
      using reportURL_cases [OF u'_def] by (simp add: job'_def split: sum.splits)
    have snap: "Activity (Status job') = Some a"
      by (simp add: job'_def)
    have ok: "storedStatus w' req = Some (Status job')" if "res = Inr ()"
    proof -
      from that res have s: "statusUpdateErr e = None"
        by (metis mirror_succeeds)
      from mirror_written(2) [OF m u s stored c, of t r] key
      show ?thesis by (simp add: w' storedStatus_def job'_def u'_def)
    qed
    show ?thesis
      using one url snap ok failed by (auto split del: if_split)
  qed
qed

theorem report_url_assigned_iff_witness:
  "reconciles exampleEnv exampleReq (pendingWorld [exampleActivity]) pendingJob [exampleActivity]
   \<and> Labels pendingJob = Some [''app'' \<mapsto> ''lighthouse'']
   \<and> getReportURLBase exampleEnv = ''https://example.com''
   \<and> fst (Reconcile exampleReconciler exampleEnv exampleReq (pendingWorld [exampleActivity])) = Inr ()
   \<and> map_option ReportURL
        (storedStatus (snd (Reconcile exampleReconciler exampleEnv exampleReq
           (pendingWorld [exampleActivity]))) exampleReq)
       = Some ''https://example.com/teams/some-team/projects/acme/widgets/main/3''
   \<and> reconciles quietEnv exampleReq reportedWorld reportedJob [exampleActivity]
   \<and> getReportURLBase quietEnv = ''''
   \<and> fst (Reconcile exampleReconciler quietEnv exampleReq reportedWorld) = Inr ()
   \<and> map_option ReportURL
        (storedStatus (snd (Reconcile exampleReconciler quietEnv exampleReq reportedWorld)) exampleReq)
       = Some ''https://old.example.com/3''"
proof -
  let ?a = "\<lparr>ar_Owner = ''acme'', ar_Repo = ''widgets'', ar_Branch = ''main'',
             ar_BuildIdentifier = ''3'', ar_Context = ''jenkins-x''\<rparr>"
  let ?run1 = "ReconcileWith defaultTargetURLTemplate exampleReconciler exampleEnv exampleReq
                 (pendingWorld [exampleActivity])"
  let ?run2 = "ReconcileWith defaultTargetURLTemplate exampleReconciler quietEnv exampleReq reportedWorld"
  have base: "getReportURLBase exampleEnv = ''https://example.com''" "getReportURLBase quietEnv = ''''"
    by (simp_all add: getReportURLBase_def baseTargetURLEnvVar_def example_defs)
  have labels: "Labels pendingJob = Some [''app'' \<mapsto> ''lighthouse'']"
    by (simp add: example_defs)
  have prev: "ReportURL (Status reportedJob) = ''https://old.example.com/3''"
    by (simp add: example_defs)
  have web: "webURL ''https://example.com/teams/some-team/projects/acme/widgets/main/3''"
    by (simp add: webURL_def HasPrefix_def)
  have ok: "fst ?run1 = Inr ()" "fst ?run2 = Inr ()"
    using example_mirror_ok(1,3) by simp_all
  have snap1: "Activity st = Some ?a" if "storedStatus (snd ?run1) exampleReq = Some st" for st
  proof -
    have p: "updateErr exampleEnv = None" "statusUpdateErr exampleEnv = None"
      "jobs (emit (Log ''Reconcile LighthouseJob'') (pendingWorld [exampleActivity])) (jobKey pendingJob)
         = Some pendingJob" "jobKey pendingJob = exampleReq"
      by (simp_all add: example_defs jobKey_def)
    from mirror_written(2) [OF labels p(1,2,3) example_convert(1), of defaultTargetURLTemplate exampleReconciler]
      that p(4)
    show ?thesis
      by (auto simp add: reconcile_mirror [OF example_pending_one] storedStatus_def)
  qed
  have run: "?run1 = (Inr (), snd ?run1)" "?run2 = (Inr (), snd ?run2)"
    using ok by (simp_all add: prod_eq_iff)
  from report_url_assigned_iff [OF example_pending_one run(1)]
  obtain job1 where one: "statusWrites (trace (snd ?run1))
        = statusWrites (trace (pendingWorld [exampleActivity])) @ [job1]"
    and st1: "storedStatus (snd ?run1) exampleReq = Some (Status job1)"
    and url1: "\<exists>a. Activity (Status job1) = Some a
                 \<and> (case renderReportURL exampleEnv defaultTargetURLTemplate (reportParams exampleReconciler exampleEnv a) of
                      Inl f \<Rightarrow> ReportURL (Status job1) = ReportURL (Status pendingJob)
                    | Inr url \<Rightarrow>
                        ReportURL (Status job1) =
                          (if getReportURLBase exampleEnv \<noteq> '''' \<and> webURL url then url
                           else ReportURL (Status pendingJob)))"
    by auto
  have first: "ReportURL (Status job1) = ''https://example.com/teams/some-team/projects/acme/widgets/main/3''"
    using url1 snap1 [OF st1] example_render base(1) web by simp
  from report_url_assigned_iff [OF example_quiet run(2)]
  obtain job2 where two: "statusWrites (trace (snd ?run2))
        = statusWrites (trace reportedWorld) @ [job2]"
    and st2: "storedStatus (snd ?run2) exampleReq = Some (Status job2)"
    and url2: "\<exists>a. Activity (Status job2) = Some a
                 \<and> (case renderReportURL quietEnv defaultTargetURLTemplate (reportParams exampleReconciler quietEnv a) of
                      Inl f \<Rightarrow> ReportURL (Status job2) = ReportURL (Status reportedJob)
                    | Inr url \<Rightarrow>
                        ReportURL (Status job2) =
                          (if getReportURLBase quietEnv \<noteq> '''' \<and> webURL url then url
                           else ReportURL (Status reportedJob)))"
    by auto
  have second: "ReportURL (Status job2) = ''https://old.example.com/3''"
  proof -
    from url2 obtain a where c:
      "case renderReportURL quietEnv defaultTargetURLTemplate (reportParams exampleReconciler quietEnv a) of
         Inl f \<Rightarrow> ReportURL (Status job2) = ReportURL (Status reportedJob)
       | Inr url \<Rightarrow>
           ReportURL (Status job2) =
             (if getReportURLBase quietEnv \<noteq> '''' \<and> webURL url then url
              else ReportURL (Status reportedJob))"
      by blast
    show ?thesis
      using c base(2) prev
      by (cases "renderReportURL quietEnv defaultTargetURLTemplate (reportParams exampleReconciler quietEnv a)")
         simp_all
  qed
  show ?thesis
    using example_pending_one example_quiet labels base ok st1 st2 first second
    by (simp add: Reconcile_def)
qed

text \<open>
  The claim as it was stated assigns the report URL whenever the base is configured, the
  rendering succeeds and the rendered text has a web scheme. For the job with no labels all
  three hold, and its reconciliation panics before the report URL is assigned: no status is
  submitted and the stored report URL is the empty one that the job had. The same holds for
  a job whose update the cluster refuses.
\<close>

theorem report_url_counterexample:
  "reconciles exampleEnv exampleReq unlabelledWorld unlabelledJob [exampleActivity]
   \<and> getReportURLBase exampleEnv = ''https://example.com''
   \<and> ConvertPipelineActivity exampleEnv exampleActivity =
       Inr \<lparr>ar_Owner = ''acme'', ar_Repo = ''widgets'', ar_Branch = ''main'',
            ar_BuildIdentifier = ''3'', ar_Context = ''jenkins-x''\<rparr>
   \<and> renderReportURL exampleEnv defaultTargetURLTemplate
       (reportParams exampleReconciler exampleEnv
          \<lparr>ar_Owner = ''acme'', ar_Repo = ''widgets'', ar_Branch = ''main'',
             ar_BuildIdentifier = ''3'', ar_Context = ''jenkins-x''\<rparr>)
       = Inr ''https://example.com/teams/some-team/projects/acme/widgets/main/3''
   \<and> webURL ''https://example.com/teams/some-team/projects/acme/widgets/main/3''
   \<and> fst (Reconcile exampleReconciler exampleEnv exampleReq unlabelledWorld)
       = Inl (Panic ''assignment to entry in nil map'')
   \<and> statusWrites (trace (snd (Reconcile exampleReconciler exampleEnv exampleReq unlabelledWorld))) = []
   \<and> map_option ReportURL
        (storedStatus (snd (Reconcile exampleReconciler exampleEnv exampleReq unlabelledWorld)) exampleReq)
       = Some ''''
   \<and> reconciles (exampleEnv\<lparr>updateErr := Some (ClientError ''conflict'')\<rparr>) exampleReq
        (pendingWorld [exampleActivity]) pendingJob [exampleActivity]
   \<and> getReportURLBase (exampleEnv\<lparr>updateErr := Some (ClientError ''conflict'')\<rparr>) = ''https://example.com''
   \<and> fst (Reconcile exampleReconciler (exampleEnv\<lparr>updateErr := Some (ClientError ''conflict'')\<rparr>)
        exampleReq (pendingWorld [exampleActivity]))
       = Inl (Returned (ClientError ''conflict''))
   \<and> statusWrites (trace (snd (Reconcile exampleReconciler
        (exampleEnv\<lparr>updateErr := Some (ClientError ''conflict'')\<rparr>) exampleReq
        (pendingWorld [exampleActivity])))) = []
   \<and> map_option ReportURL
        (storedStatus (snd (Reconcile exampleReconciler
           (exampleEnv\<lparr>updateErr := Some (ClientError ''conflict'')\<rparr>) exampleReq
           (pendingWorld [exampleActivity]))) exampleReq)
       = Some ''''"
proof -
  let ?e = "exampleEnv\<lparr>updateErr := Some (ClientError ''conflict'')\<rparr>"
  let ?log = "Log ''Reconcile LighthouseJob''"
  have refused: "reconciles ?e exampleReq (pendingWorld [exampleActivity]) pendingJob [exampleActivity]"
    using example_pending_one by (simp add: reconciles_def matchingActivities_def)
  have a: "Labels unlabelledJob = None" "Labels pendingJob = Some [''app'' \<mapsto> ''lighthouse'']"
    "updateErr ?e = Some (ClientError ''conflict'')"
    by (simp_all add: example_defs)
  have base: "getReportURLBase exampleEnv = ''https://example.com''"
    "getReportURLBase ?e = ''https://example.com''"
    by (simp_all add: getReportURLBase_def baseTargetURLEnvVar_def example_defs)
  have web: "webURL ''https://example.com/teams/some-team/projects/acme/widgets/main/3''"
    by (simp add: webURL_def HasPrefix_def)
  have nil: "Reconcile exampleReconciler exampleEnv exampleReq unlabelledWorld =
      (Inl (Panic ''assignment to entry in nil map''), emit ?log unlabelledWorld)"
    using reconcile_mirror [OF example_unlabelled, of defaultTargetURLTemplate exampleReconciler]
      mirror_panics [OF a(1)]
    by (simp add: Reconcile_def)
  have run: "Reconcile exampleReconciler ?e exampleReq (pendingWorld [exampleActivity]) =
      mirrorActivity defaultTargetURLTemplate exampleReconciler ?e pendingJob exampleActivity
        (emit ?log (pendingWorld [exampleActivity]))"
    using reconcile_mirror [OF refused] by (simp add: Reconcile_def)
  have quiet: "statusWrites (trace (snd (mirrorActivity defaultTargetURLTemplate exampleReconciler ?e
        pendingJob exampleActivity (emit ?log (pendingWorld [exampleActivity]))))) = []"
    using mirror_submits_nothing [of pendingJob ?e exampleActivity] a(3)
    by (simp add: example_defs)
  show ?thesis
    using example_unlabelled refused base web example_convert(1) example_render nil quiet
      mirror_update_refused [OF a(2,3)]
    by (simp add: run storedStatus_def)
       (simp add: example_defs)
qed

subsection \<open>The default context\<close>

text \<open>
  Claim C9. Let a reconciliation load a job with exactly one correlated activity, and let
  the activity have no context. Every status that the reconciliation submits carries a
  snapshot with the context \<^verbatim>\<open>jenkins-x\<close>, and when the reconciliation returns the nil
  error the stored job carries this snapshot: the default is in the snapshot, not only in
  the parameters of the report URL.
\<close>

theorem snapshot_context_default:
  assumes "reconciles e req w job [pa]" and "pa_Context pa = ''''"
    and "Reconcile r e req w = (res, w')"
  shows "\<exists>ws. statusWrites (trace w') = statusWrites (trace w) @ ws
           \<and> (\<forall>job' \<in> set ws. map_option ar_Context (Activity (Status job')) = Some ''jenkins-x'')
           \<and> (res = Inr () \<longrightarrow> ws \<noteq> [] \<and> snapshotContext w' req = Some ''jenkins-x'')"
proof -
  let ?w0 = "emit (Log ''Reconcile LighthouseJob'') w"
  have run: "mirrorActivity defaultTargetURLTemplate r e job pa ?w0 = (res, w')"
    using assms(3) reconcile_mirror [OF assms(1)] by (simp add: Reconcile_def)
  have stored: "jobs ?w0 (jobKey job) = Some job" and key: "jobKey job = req"
    using assms(1) by (simp_all add: reconciles_def)
  have res: "res = fst (mirrorActivity defaultTargetURLTemplate r e job pa ?w0)"
    and w': "w' = snd (mirrorActivity defaultTargetURLTemplate r e job pa ?w0)"
    using run by simp_all
  obtain ws where ws: "statusWrites (trace w') = statusWrites (trace w) @ ws"
    and each: "\<forall>job' \<in> set ws. \<exists>a. ConvertPipelineActivity e pa = Inr a \<and> Activity (Status job') = Some a"
    using mirror_statusWrites [of defaultTargetURLTemplate r e job pa ?w0] by (auto simp add: w')
  have ctx: "\<forall>job' \<in> set ws. map_option ar_Context (Activity (Status job')) = Some ''jenkins-x''"
    using each convert_fields(5) assms(2) by fastforce
  have ok: "ws \<noteq> [] \<and> snapshotContext w' req = Some ''jenkins-x''" if "res = Inr ()"
  proof -
    from that res obtain m a where m: "Labels job = Some m" and u: "updateErr e = None"
      and c: "ConvertPipelineActivity e pa = Inr a" and s: "statusUpdateErr e = None"
      by (metis mirror_succeeds)
    have "ws \<noteq> []"
      using mirror_submits [OF m u c stored, of defaultTargetURLTemplate r] ws by (auto simp add: w')
    moreover have "snapshotContext w' req = Some ''jenkins-x''"
      using mirror_written(2) [OF m u s stored c, of defaultTargetURLTemplate r]
        convert_fields(5) [OF c] assms(2) key
      by (simp add: w' snapshotContext_def)
    ultimately show ?thesis by simp
  qed
  show ?thesis using ws ctx ok by blast
qed

theorem snapshot_context_default_witness:
  "reconciles exampleEnv exampleReq (pendingWorld [exampleActivity]) pendingJob [exampleActivity]
   \<and> pa_Context exampleActivity = ''''
   \<and> Labels pendingJob = Some [''app'' \<mapsto> ''lighthouse'']
   \<and> fst (Reconcile exampleReconciler exampleEnv exampleReq (pendingWorld [exampleActivity])) = Inr ()
   \<and> snapshotContext (snd (Reconcile exampleReconciler exampleEnv exampleReq
        (pendingWorld [exampleActivity]))) exampleReq = Some ''jenkins-x''"
proof -
  have a: "pa_Context exampleActivity = ''''" "Labels pendingJob = Some [''app'' \<mapsto> ''lighthouse'']"
    by (simp_all add: example_defs)
  have ok: "fst (Reconcile exampleReconciler exampleEnv exampleReq (pendingWorld [exampleActivity])) = Inr ()"
    using example_mirror_ok(1) by (simp add: Reconcile_def)
  have run: "Reconcile exampleReconciler exampleEnv exampleReq (pendingWorld [exampleActivity]) =
      (Inr (), snd (Reconcile exampleReconciler exampleEnv exampleReq (pendingWorld [exampleActivity])))"
    using ok by (simp add: prod_eq_iff)
  from snapshot_context_default [OF example_pending_one a(1) run]
  show ?thesis using a ok example_pending_one by auto
qed

subsection \<open>The descriptor of the pull references\<close>

lemma PullRef_String_pullRefOf:
  assumes "Pulls refs \<noteq> []"
  shows "PullRef_String (pullRefOf url refs) =
           BaseRef refs @ '':'' @ BaseSHA refs
             @ concat (map (\<lambda>pull. '','' @ Itoa (Number pull) @ '':'' @ SHA pull) (Pulls refs))"
  using assms
  by (simp add: PullRef_String_def pullRefOf_def NewPullRefWithPullRequest_def comp_def)

text \<open>
  Claim C7, amended. A reconciliation of a triggered job with references logs the
  descriptor of its pull references. With no pull request the descriptor is the branch
  (\<^verbatim>\<open>master\<close> when the job has none) followed by a colon. With pull requests it is the
  base branch and the base revision, joined by a colon, followed for each pull request by
  a comma and the pair \<open>number:revision\<close>; for the one pull request 5 with revision
  \<^verbatim>\<open>abc\<close> it contains \<^verbatim>\<open>5:abc\<close>.
\<close>

theorem pull_refs_descriptor:
  assumes "reconciles e req w job []" and "State (Status job) = TriggeredState"
    and "Refs (Spec job) = Some refs" and "Reconcile r e req w = (res, w')"
  shows "LogFields
           [(''Owner'', Org refs), (''Name'', Repo refs), (''SourceURL'', CloneURI refs),
            (''Branch'', triggerBranch e (Spec job)),
            (''PullRefs'', pullRefsDescriptor e (Spec job) refs), (''Job'', Spec_Job (Spec job))]
           ''about to start Jenkinx X meta pipeline'' \<in> set (trace w')
         \<and> triggerBranch e (Spec job) =
             (if GetBranch e (Spec job) = '''' then ''master'' else GetBranch e (Spec job))
         \<and> (Pulls refs = []
              \<longrightarrow> pullRefsDescriptor e (Spec job) refs = triggerBranch e (Spec job) @ '':'')
         \<and> (Pulls refs \<noteq> []
              \<longrightarrow> pullRefsDescriptor e (Spec job) refs =
                    BaseRef refs @ '':'' @ BaseSHA refs
                      @ concat (map (\<lambda>pull. '','' @ Itoa (Number pull) @ '':'' @ SHA pull)
                                  (Pulls refs)))
         \<and> (Pulls refs = [\<lparr>Number = 5, SHA = ''abc''\<rparr>]
              \<longrightarrow> sublist ''5:abc'' (pullRefsDescriptor e (Spec job) refs))"
proof -
  let ?spec = "Spec job"
  have w': "w' = snd (triggerPipeline r e job (emit (Log ''Reconcile LighthouseJob'') w))"
    using assms(4) reconcile_trigger [OF assms(1,2)] by (simp add: Reconcile_def)
  have logged: "LogFields
           [(''Owner'', Org refs), (''Name'', Repo refs), (''SourceURL'', CloneURI refs),
            (''Branch'', triggerBranch e ?spec),
            (''PullRefs'', pullRefsDescriptor e ?spec refs), (''Job'', Spec_Job ?spec)]
           ''about to start Jenkinx X meta pipeline'' \<in> set (trace w')"
    using trigger_logs [OF assms(3), of e r "emit (Log ''Reconcile LighthouseJob'') w"]
    by (simp add: w' triggerLogLine_def triggerLogFields_def)
  have branch: "triggerBranch e ?spec =
      (if GetBranch e ?spec = '''' then ''master'' else GetBranch e ?spec)"
    by (simp add: triggerBranch_def Let_def)
  have none: "pullRefsDescriptor e ?spec refs = triggerBranch e ?spec @ '':''"
    if "Pulls refs = []"
    using that by (simp add: pullRefsDescriptor_def triggerPullRefs_def Let_def)
  have some: "pullRefsDescriptor e ?spec refs =
      BaseRef refs @ '':'' @ BaseSHA refs
        @ concat (map (\<lambda>pull. '','' @ Itoa (Number pull) @ '':'' @ SHA pull) (Pulls refs))"
    if "Pulls refs \<noteq> []"
    using that PullRef_String_pullRefOf [OF that, of "CloneURI refs"]
    by (simp add: pullRefsDescriptor_def triggerPullRefs_def Let_def)
  have five: "sublist ''5:abc'' (pullRefsDescriptor e ?spec refs)"
    if "Pulls refs = [\<lparr>Number = 5, SHA = ''abc''\<rparr>]"
  proof -
    from that have "Pulls refs \<noteq> []" by simp
    from some [OF this] that
    have "pullRefsDescriptor e ?spec refs = (BaseRef refs @ '':'' @ BaseSHA refs @ '','') @ ''5:abc'' @ []"
      by (simp add: Itoa_def natToDec.simps digit_def)
    then show ?thesis unfolding sublist_def by blast
  qed
  show ?thesis using logged branch none some five by blast
qed

theorem pull_refs_descriptor_witness:
  "reconciles exampleEnv exampleReq exampleWorld exampleJob []
   \<and> State (Status exampleJob) = TriggeredState
   \<and> Refs (Spec exampleJob) = Some exampleRefs
   \<and> Pulls exampleRefs = []
   \<and> pullRefsDescriptor exampleEnv (Spec exampleJob) exampleRefs = ''main:''
   \<and> reconciles exampleEnv exampleReq (worldOf pullRequestJob []) pullRequestJob []
   \<and> State (Status pullRequestJob) = TriggeredState
   \<and> Refs (Spec pullRequestJob) = Some pullRequestRefs
   \<and> Pulls pullRequestRefs = [\<lparr>Number = 5, SHA = ''abc''\<rparr>]
   \<and> pullRefsDescriptor exampleEnv (Spec pullRequestJob) pullRequestRefs = ''main:0123abc,5:abc''
   \<and> sublist ''5:abc'' (pullRefsDescriptor exampleEnv (Spec pullRequestJob) pullRequestRefs)"
proof -
  have a: "State (Status exampleJob) = TriggeredState" "Refs (Spec exampleJob) = Some exampleRefs"
    "Pulls exampleRefs = []"
    by (simp_all add: example_defs)
  have b: "State (Status pullRequestJob) = TriggeredState"
    "Refs (Spec pullRequestJob) = Some pullRequestRefs"
    "Pulls pullRequestRefs = [\<lparr>Number = 5, SHA = ''abc''\<rparr>]"
    by (simp_all add: example_defs)
  from pull_refs_descriptor [OF example_triggered a(1,2), of exampleReconciler
      "fst (Reconcile exampleReconciler exampleEnv exampleReq exampleWorld)"
      "snd (Reconcile exampleReconciler exampleEnv exampleReq exampleWorld)"]
    pull_refs_descriptor [OF example_pull_request b(1,2), of exampleReconciler
      "fst (Reconcile exampleReconciler exampleEnv exampleReq (worldOf pullRequestJob []))"
      "snd (Reconcile exampleReconciler exampleEnv exampleReq (worldOf pullRequestJob []))"]
  show ?thesis
    using a b example_triggered example_pull_request example_descriptors by simp
qed

text \<open>
  The claim as it was stated makes the descriptor of a job with pull requests the
  comma-joined list of the pairs \<open>number:revision\<close>. For the one pull request 5 with
  revision \<^verbatim>\<open>abc\<close> on the base \<^verbatim>\<open>main\<close> at \<^verbatim>\<open>0123abc\<close> the reconciliation logs the
  descriptor \<^verbatim>\<open>main:0123abc,5:abc\<close>, which starts with the base.
\<close>

theorem pull_refs_descriptor_counterexample:
  "reconciles exampleEnv exampleReq (worldOf pullRequestJob []) pullRequestJob []
   \<and> State (Status pullRequestJob) = TriggeredState
   \<and> map_option Pulls (Refs (Spec pullRequestJob)) = Some [\<lparr>Number = 5, SHA = ''abc''\<rparr>]
   \<and> LogFields
       [(''Owner'', ''acme''), (''Name'', ''widgets''),
        (''SourceURL'', ''https://github.com/acme/widgets.git''), (''Branch'', ''PR-5''),
        (''PullRefs'', ''main:0123abc,5:abc''), (''Job'', ''release'')]
       ''about to start Jenkinx X meta pipeline''
       \<in> set (trace (snd (Reconcile exampleReconciler exampleEnv exampleReq (worldOf pullRequestJob []))))
   \<and> pullRefsDescriptor exampleEnv (Spec pullRequestJob) pullRequestRefs \<noteq> ''5:abc''"
proof -
  have b: "State (Status pullRequestJob) = TriggeredState"
    "Refs (Spec pullRequestJob) = Some pullRequestRefs"
    "Pulls pullRequestRefs = [\<lparr>Number = 5, SHA = ''abc''\<rparr>]"
    by (simp_all add: example_defs)
  have five: "Itoa 5 = ''5''" by (simp add: Itoa_def natToDec.simps digit_def)
  have line: "triggerLogLine exampleEnv (Spec pullRequestJob) pullRequestRefs =
      LogFields
       [(''Owner'', ''acme''), (''Name'', ''widgets''),
        (''SourceURL'', ''https://github.com/acme/widgets.git''), (''Branch'', ''PR-5''),
        (''PullRefs'', ''main:0123abc,5:abc''), (''Job'', ''release'')]
       ''about to start Jenkinx X meta pipeline''"
    using example_descriptors(2) five
    by (simp add: triggerLogLine_def triggerLogFields_def triggerBranch_def exampleGetBranch_def
        example_defs)
  have run: "Reconcile exampleReconciler exampleEnv exampleReq (worldOf pullRequestJob []) =
      triggerPipeline exampleReconciler exampleEnv pullRequestJob
        (emit (Log ''Reconcile LighthouseJob'') (worldOf pullRequestJob []))"
    using reconcile_trigger [OF example_pull_request b(1)] by (simp add: Reconcile_def)
  show ?thesis
    using example_pull_request b example_descriptors(2)
      trigger_logs [OF b(2), of exampleEnv exampleReconciler
        "emit (Log ''Reconcile LighthouseJob'') (worldOf pullRequestJob [])"]
    by (simp add: run line)
qed

subsection \<open>The renderer\<close>











end
